theory Spec2Isabelle
  imports Main "HOL-Library.Sublist" "HOL-Library.AList"
begin

section \<open>Python string operations used by the program\<close>

text \<open>
  A Python string is modelled by its UTF-8 encoding, a list of 8-bit characters. Searching
  for an ASCII text, testing a prefix or a suffix and replacing an ASCII text give the same
  on the encoding as on the characters, since no byte of an ASCII text occurs inside the
  encoding of another character.
\<close>

abbreviation nl :: string where
  "nl \<equiv> [CHR 0x0A]"

text \<open>
  \<open>str.lower\<close> on the letters A-Z. The column names of every input evaluated below are
  written in ASCII; \<open>py_lower\<close> leaves the bytes of other characters as they are and
  says nothing about what \<open>str.lower\<close> does to them.
\<close>

definition lower_char :: "char \<Rightarrow> char" where
  "lower_char c =
     (case map_of (zip ''ABCDEFGHIJKLMNOPQRSTUVWXYZ'' ''abcdefghijklmnopqrstuvwxyz'') c of
        Some l \<Rightarrow> l
      | None \<Rightarrow> c)"

definition py_lower :: "string \<Rightarrow> string" where
  "py_lower s = map lower_char s"

text \<open>
  The characters that \<open>str.isspace\<close>, \<open>str.strip\<close> and the class \<open>\s\<close> of
  \<open>re\<close> take for whitespace, each in UTF-8: U+0009 to U+000D, U+001C to U+001F, the
  space, U+0085, U+00A0, U+1680, U+2000 to U+200A, U+2028, U+2029, U+202F, U+205F and
  U+3000.
\<close>

definition whitespace :: "string list" where
  "whitespace =
     [[CHR 0x09], [CHR 0x0A], [CHR 0x0B], [CHR 0x0C], [CHR 0x0D],
      [CHR 0x1C], [CHR 0x1D], [CHR 0x1E], [CHR 0x1F], [CHR 0x20],
      [CHR 0xC2, CHR 0x85], [CHR 0xC2, CHR 0xA0],
      [CHR 0xE1, CHR 0x9A, CHR 0x80],
      [CHR 0xE2, CHR 0x80, CHR 0x80], [CHR 0xE2, CHR 0x80, CHR 0x81],
      [CHR 0xE2, CHR 0x80, CHR 0x82], [CHR 0xE2, CHR 0x80, CHR 0x83],
      [CHR 0xE2, CHR 0x80, CHR 0x84], [CHR 0xE2, CHR 0x80, CHR 0x85],
      [CHR 0xE2, CHR 0x80, CHR 0x86], [CHR 0xE2, CHR 0x80, CHR 0x87],
      [CHR 0xE2, CHR 0x80, CHR 0x88], [CHR 0xE2, CHR 0x80, CHR 0x89],
      [CHR 0xE2, CHR 0x80, CHR 0x8A],
      [CHR 0xE2, CHR 0x80, CHR 0xA8], [CHR 0xE2, CHR 0x80, CHR 0xA9],
      [CHR 0xE2, CHR 0x80, CHR 0xAF],
      [CHR 0xE2, CHR 0x81, CHR 0x9F],
      [CHR 0xE3, CHR 0x80, CHR 0x80]]"

text \<open>
  \<open>strip_front\<close> removes from the front of a string the characters of a list, given by
  their encodings, as long as one of them is there. \<open>lstrip\<close> removes leading
  whitespace (it is also the greedy \<open>\s*\<close> at the start of a text), \<open>rstrip\<close>
  removes trailing whitespace, and \<open>py_strip\<close> is \<open>str.strip()\<close>.
\<close>

function strip_front :: "string list \<Rightarrow> string \<Rightarrow> string" where
  "strip_front ws s =
     (case find (\<lambda>w. w \<noteq> [] \<and> prefix w s) ws of
        None \<Rightarrow> s
      | Some w \<Rightarrow> strip_front ws (drop (length w) s))"
  by pat_completeness auto
termination
proof (relation "measure (\<lambda>(ws, s). length s)")
  show "wf (measure (\<lambda>(ws, s). length s))" by simp
next
  fix ws :: "string list" and s w :: string
  assume "find (\<lambda>w. w \<noteq> [] \<and> prefix w s) ws = Some w"
  then have "w \<noteq> []" and "prefix w s"
    by (auto simp: find_Some_iff)
  then show "((ws, drop (length w) s), (ws, s)) \<in> measure (\<lambda>(ws, s). length s)"
    by (auto simp: prefix_def)
qed

declare strip_front.simps [simp del]

definition lstrip :: "string \<Rightarrow> string" where
  "lstrip s = strip_front whitespace s"

definition rstrip :: "string \<Rightarrow> string" where
  "rstrip s = rev (strip_front (map rev whitespace) (rev s))"

definition py_strip :: "string \<Rightarrow> string" where
  "py_strip s = rstrip (lstrip s)"

text \<open>\<open>p in s\<close>, \<open>s.startswith(p)\<close> and \<open>s.endswith(p)\<close>.\<close>

definition py_in :: "string \<Rightarrow> string \<Rightarrow> bool" where
  "py_in p s = sublist p s"

definition startswith :: "string \<Rightarrow> string \<Rightarrow> bool" where
  "startswith s p = prefix p s"

definition endswith :: "string \<Rightarrow> string \<Rightarrow> bool" where
  "endswith s p = suffix p s"

text \<open>
  \<open>s.replace(old, new)\<close>: the occurrences of \<open>old\<close> are replaced from left to right
  and do not overlap. With an empty \<open>old\<close> Python puts \<open>new\<close> before every
  character and at the end.
\<close>

function replace_from :: "string \<Rightarrow> string \<Rightarrow> string \<Rightarrow> string" where
  "replace_from old new s =
     (if old = [] \<or> s = [] then s
      else if prefix old s then new @ replace_from old new (drop (length old) s)
      else hd s # replace_from old new (tl s))"
  by pat_completeness auto
termination
  by (relation "measure (\<lambda>(old, new, s). length s)") (auto simp: neq_Nil_conv)

declare replace_from.simps [simp del]

definition py_replace :: "string \<Rightarrow> string \<Rightarrow> string \<Rightarrow> string" where
  "py_replace old new s =
     (if old = [] then new @ concat (map (\<lambda>c. c # new) s) else replace_from old new s)"

text \<open>\<open>sep.join(xs)\<close>.\<close>

fun py_join :: "string \<Rightarrow> string list \<Rightarrow> string" where
  "py_join sep [] = []"
| "py_join sep [x] = x"
| "py_join sep (x # y # ys) = x @ sep @ py_join sep (y # ys)"

section \<open>Semantic inference: \<open>DatabaseAnalyzer.infer_column_semantics\<close>\<close>

text \<open>
  The comment store is the catalog's table of column descriptions: a row may be missing,
  and \<open>get_comment_for_column\<close> answers the empty string then (as it does for an empty
  description).
\<close>

type_synonym comment_store = "string \<times> string \<Rightarrow> string option"

definition get_comment_for_column :: "comment_store \<Rightarrow> string \<Rightarrow> string \<Rightarrow> string" where
  "get_comment_for_column store table_name column_name =
     (case store (table_name, column_name) of
        Some description \<Rightarrow> description
      | None \<Rightarrow> [])"

text \<open>
  The analyzer's memo: the dictionary \<open>self.column_semantics\<close>, and beside it the log of
  the calls made to \<open>get_comment_for_column\<close>, oldest first. The log is not a field of
  the source; it records the one external effect of the function so that the number of
  lookups can be stated.
\<close>

record memo =
  column_semantics :: "string \<Rightarrow> string option"
  comment_queries :: "(string \<times> string) list"

definition empty_memo :: memo where
  "empty_memo = \<lparr>column_semantics = Map.empty, comment_queries = []\<rparr>"

definition column_key :: "string \<Rightarrow> string \<Rightarrow> string" where
  "column_key table_name column_name = table_name @ ''.'' @ column_name"

definition date_created_patterns :: "string list" where
  "date_created_patterns = [''created_at'', ''creation_date'', ''date_created'', ''created_on'']"

definition date_updated_patterns :: "string list" where
  "date_updated_patterns =
     [''updated_at'', ''modification_date'', ''date_updated'', ''modified_on'', ''last_updated'']"

definition date_deleted_patterns :: "string list" where
  "date_deleted_patterns = [''deleted_at'', ''deletion_date'', ''date_deleted'', ''removed_on'']"

definition delivery_patterns :: "string list" where
  "delivery_patterns = [''delivery_date'', ''delivered_at'', ''date_delivered'']"

definition dispatch_patterns :: "string list" where
  "dispatch_patterns =
     [''dispatch_date'', ''dispatched_at'', ''date_dispatched'', ''shipped_date'', ''shipped_at'']"

definition order_patterns :: "string list" where
  "order_patterns = [''order_date'', ''ordered_at'', ''date_ordered'']"

definition payment_patterns :: "string list" where
  "payment_patterns = [''payment_date'', ''paid_at'', ''date_paid'']"

definition id_patterns :: "string list" where
  "id_patterns = [''_id'', ''id'', ''_key'', ''uuid'', ''guid'']"

definition status_patterns :: "string list" where
  "status_patterns = [''status'', ''state'', ''condition'']"

text \<open>\<open>any(pattern in col_lower for pattern in patterns)\<close>\<close>

definition any_in :: "string list \<Rightarrow> string \<Rightarrow> bool" where
  "any_in patterns col_lower = list_ex (\<lambda>pattern. py_in pattern col_lower) patterns"

text \<open>\<open>any(col_lower.endswith(suffix) for suffix in id_patterns)\<close>\<close>

definition any_endswith :: "string \<Rightarrow> string list \<Rightarrow> bool" where
  "any_endswith col_lower sfxs = list_ex (\<lambda>sfx. endswith col_lower sfx) sfxs"

definition date_types :: "string list" where
  "date_types = [''date'', ''timestamp'', ''timestamptz'', ''datetime'']"

definition numeric_types :: "string list" where
  "numeric_types = [''integer'', ''bigint'', ''numeric'', ''decimal'', ''double precision'']"

definition string_types :: "string list" where
  "string_types = [''character varying'', ''varchar'', ''text'', ''char'']"

definition date_semantics :: "string \<Rightarrow> string" where
  "date_semantics col_lower =
     (if any_in date_created_patterns col_lower then
        ''Timestamp when the record was created''
      else if any_in date_updated_patterns col_lower then
        ''Timestamp when the record was last updated''
      else if any_in date_deleted_patterns col_lower then
        ''Timestamp when the record was deleted (for soft deletes)''
      else if any_in delivery_patterns col_lower then
        ''Date when items were actually delivered to the customer''
      else if any_in dispatch_patterns col_lower then
        ''Date when items were dispatched from the warehouse/facility''
      else if any_in order_patterns col_lower then
        ''Date when the order was placed''
      else if any_in payment_patterns col_lower then
        ''Date when payment was received''
      else if py_in ''due'' col_lower then
        ''Due date or deadline''
      else if py_in ''start'' col_lower then
        ''Start date of an event or period''
      else if py_in ''end'' col_lower then
        ''End date of an event or period''
      else [])"

definition numeric_semantics :: "string \<Rightarrow> string" where
  "numeric_semantics col_lower =
     (if py_in ''price'' col_lower \<or> py_in ''cost'' col_lower \<or> py_in ''amount'' col_lower then
        ''Monetary value''
      else if py_in ''quantity'' col_lower \<or> py_in ''count'' col_lower
              \<or> py_in ''number'' col_lower then
        ''Quantity or count''
      else if py_in ''discount'' col_lower then
        ''Discount value (possibly percentage if between 0-1 or 0-100)''
      else if py_in ''total'' col_lower then
        ''Total calculated value''
      else if any_endswith col_lower id_patterns then
        ''Identifier or foreign key''
      else [])"

definition boolean_semantics :: "string \<Rightarrow> string" where
  "boolean_semantics col_lower =
     (if py_in ''is_'' col_lower \<or> py_in ''has_'' col_lower then
        (let attribute = py_replace ''has_'' [] (py_replace ''is_'' [] col_lower)
         in ''Indicates if the record '' @ attribute)
      else if py_in ''active'' col_lower \<or> py_in ''enabled'' col_lower then
        ''Indicates if the record is active or enabled''
      else [])"

definition string_semantics :: "string \<Rightarrow> string" where
  "string_semantics col_lower =
     (if any_in status_patterns col_lower then ''Status or state of the record''
      else if py_in ''name'' col_lower then ''Name or title''
      else if py_in ''description'' col_lower \<or> py_in ''desc'' col_lower then ''Descriptive text''
      else if py_in ''code'' col_lower then ''Code or identifier''
      else if py_in ''address'' col_lower then ''Address information''
      else if py_in ''email'' col_lower then ''Email address''
      else if py_in ''phone'' col_lower then ''Phone number''
      else [])"

text \<open>The \<open>if / elif\<close> chain over the declared type; an unlisted type leaves the meaning empty.\<close>

definition type_semantics :: "string \<Rightarrow> string \<Rightarrow> string" where
  "type_semantics data_type col_lower =
     (if data_type \<in> set date_types then date_semantics col_lower
      else if data_type \<in> set numeric_types then numeric_semantics col_lower
      else if data_type = ''boolean'' then boolean_semantics col_lower
      else if data_type \<in> set string_types then string_semantics col_lower
      else [])"

text \<open>The block under \<open>if not meaning\<close>; it is given the empty meaning and returns the new one.\<close>

definition id_fallback :: "string \<Rightarrow> string" where
  "id_fallback col_lower =
     (if any_endswith col_lower id_patterns then
        (if col_lower = ''id'' \<or> endswith col_lower ''_id'' then
           (let relation = py_replace ''_id'' [] col_lower
            in if relation \<noteq> [] then ''Identifier for a '' @ relation
               else ''Primary identifier'')
         else [])
      else [])"

definition infer_meaning :: "string \<Rightarrow> string \<Rightarrow> string" where
  "infer_meaning column_name data_type =
     (let col_lower = py_lower column_name;
          meaning = type_semantics data_type col_lower
      in if meaning = [] then id_fallback col_lower else meaning)"

definition infer_column_semantics ::
  "comment_store \<Rightarrow> memo \<Rightarrow> string \<Rightarrow> string \<Rightarrow> string \<Rightarrow> string \<times> memo" where
  "infer_column_semantics store m table_name column_name data_type =
     (let key = column_key table_name column_name
      in case column_semantics m key of
           Some cached \<Rightarrow> (cached, m)
         | None \<Rightarrow>
             (let comment = get_comment_for_column store table_name column_name;
                  m1 = m\<lparr>comment_queries := comment_queries m @ [(table_name, column_name)]\<rparr>
              in if comment \<noteq> [] then
                   (comment, m1\<lparr>column_semantics := (column_semantics m1)(key \<mapsto> comment)\<rparr>)
                 else
                   (let meaning = infer_meaning column_name data_type
                    in (meaning,
                        m1\<lparr>column_semantics := (column_semantics m1)(key \<mapsto> meaning)\<rparr>))))"

section \<open>Response interpreter: \<open>extract_sql_from_response\<close>\<close>

text \<open>
  The pattern of \<open>re.findall\<close> is three backticks, an optional \<open>sql\<close>, a lazy group
  matching any characters (the flag DOTALL is set) and three backticks again.
  \<open>lazy_until_fence\<close> is the lazy group followed by the closing fence: the shortest text
  before a fence. \<open>match_block_at\<close> is one attempt of the matcher at the start of its
  argument, with the backtracking over the optional tag written out. \<open>first_block\<close>
  tries every start position from the left and is \<open>matches[0]\<close>, or \<open>None\<close> when the
  list of matches is empty.
\<close>

fun lazy_until_fence :: "string \<Rightarrow> string option" where
  "lazy_until_fence [] = None"
| "lazy_until_fence (c # cs) =
     (if prefix ''```'' (c # cs) then Some []
      else map_option ((#) c) (lazy_until_fence cs))"

definition match_block_at :: "string \<Rightarrow> string option" where
  "match_block_at s =
     (if prefix ''```'' s then
        (let rest = drop 3 s
         in if prefix ''sql'' rest then
              (case lazy_until_fence (drop 3 rest) of
                 Some g \<Rightarrow> Some g
               | None \<Rightarrow> lazy_until_fence rest)
            else lazy_until_fence rest)
      else None)"

fun first_block :: "string \<Rightarrow> string option" where
  "first_block [] = None"
| "first_block (c # cs) =
     (case match_block_at (c # cs) of
        Some g \<Rightarrow> Some g
      | None \<Rightarrow> first_block cs)"

text \<open>
  \<open>re.sub\<close> with the pattern \<open>^(?:SQL query|Query|SQL):?\s*\<close> and IGNORECASE: the
  alternatives are tried in this order at the start of the string, then an optional colon
  and all the whitespace that follows are taken too. The anchor allows one match only.

  Under IGNORECASE a letter of the pattern matches its lower-case and its upper-case form,
  and the letter s also matches the long s, U+017F (bytes C5 BF); the other letters of the
  three labels (e, l, q, r, u, y) have no further form, and the space matches itself.
  \<open>match_ci\<close> matches a label, given in lower case, at the start of a text and returns
  what follows it.
\<close>

definition upper_char :: "char \<Rightarrow> char" where
  "upper_char c =
     (case map_of (zip ''abcdefghijklmnopqrstuvwxyz'' ''ABCDEFGHIJKLMNOPQRSTUVWXYZ'') c of
        Some u \<Rightarrow> u
      | None \<Rightarrow> c)"

definition ci_alternatives :: "char \<Rightarrow> string list" where
  "ci_alternatives c =
     (if c = CHR ''s'' then [[CHR ''s''], [CHR ''S''], [CHR 0xC5, CHR 0xBF]]
      else [[c], [upper_char c]])"

fun match_ci :: "string \<Rightarrow> string \<Rightarrow> string option" where
  "match_ci [] s = Some s"
| "match_ci (p # ps) s =
     (case find (\<lambda>alt. prefix alt s) (ci_alternatives p) of
        None \<Rightarrow> None
      | Some alt \<Rightarrow> match_ci ps (drop (length alt) s))"

definition drop_colon :: "string \<Rightarrow> string" where
  "drop_colon s = (if prefix '':'' s then drop 1 s else s)"

definition strip_label :: "string \<Rightarrow> string" where
  "strip_label s =
     (case match_ci ''sql query'' s of
        Some rest \<Rightarrow> lstrip (drop_colon rest)
      | None \<Rightarrow>
          (case match_ci ''query'' s of
             Some rest \<Rightarrow> lstrip (drop_colon rest)
           | None \<Rightarrow>
               (case match_ci ''sql'' s of
                  Some rest \<Rightarrow> lstrip (drop_colon rest)
                | None \<Rightarrow> s)))"

definition extract_sql_from_response :: "string \<Rightarrow> string" where
  "extract_sql_from_response response =
     (let sql_query = (case first_block response of
                         Some block \<Rightarrow> py_strip block
                       | None \<Rightarrow> py_strip response)
      in py_replace ''`'' [] (strip_label sql_query))"

section \<open>Schema snapshot builder: \<open>DatabaseAnalyzer.analyze_schema\<close>\<close>

text \<open>
  The catalog is the database as the analyzer sees it: every query the analyzer sends is a
  field. The values in sample rows are of a type \<open>'v\<close> left open. A sample fetch can
  fail (\<open>cursor.execute\<close> raises, \<open>Inl\<close> with the engine's text) or give the column
  names and the rows. The other catalog queries are taken to answer.
\<close>

record raw_column =
  c_name :: string
  c_type :: string
  c_nullable :: string
  c_default :: "string option"
  c_max_length :: "int option"
  c_precision :: "int option"
  c_scale :: "int option"

record column_info = raw_column +
  c_semantics :: "string option"

record fk_row =
  fk_table :: string
  fk_column :: string
  fk_foreign_table :: string
  fk_foreign_column :: string

record relationship =
  r_table :: string
  r_column :: string
  r_references_table :: string
  r_references_column :: string

record table_info =
  t_columns :: "column_info list"
  t_comment :: string

type_synonym 'v row = "(string \<times> 'v) list"

record 'v catalog =
  cat_tables :: "string list"
  cat_columns :: "string \<Rightarrow> raw_column list"
  cat_foreign_keys :: "fk_row list"
  cat_primary_key_rows :: "(string \<times> string) list"
  cat_column_comments :: comment_store
  cat_table_comments :: "string \<Rightarrow> string option"
  cat_sample :: "string \<Rightarrow> nat \<Rightarrow> string + (string list \<times> 'v list list)"

text \<open>
  \<open>schema_info\<close>: the dictionary \<open>tables\<close> keeps its insertion order (the renderers
  iterate over it); the other dictionaries are only looked up.
\<close>

record 'v schema_info =
  si_tables :: "(string \<times> table_info) list"
  si_relationships :: "relationship list"
  si_primary_keys :: "string \<Rightarrow> string list option"
  si_sample_data :: "string \<Rightarrow> 'v row list option"
  si_column_semantics :: "string \<Rightarrow> string option"

definition get_comment_for_table :: "'v catalog \<Rightarrow> string \<Rightarrow> string" where
  "get_comment_for_table cat table_name =
     (case cat_table_comments cat table_name of
        Some description \<Rightarrow> description
      | None \<Rightarrow> [])"

fun collect_primary_keys ::
  "(string \<times> string) list \<Rightarrow> (string \<Rightarrow> string list option) \<Rightarrow> (string \<Rightarrow> string list option)" where
  "collect_primary_keys [] pks = pks"
| "collect_primary_keys ((table_name, column_name) # rows) pks =
     collect_primary_keys rows
       (pks(table_name \<mapsto> (case pks table_name of None \<Rightarrow> [] | Some cs \<Rightarrow> cs) @ [column_name]))"

definition get_primary_keys :: "'v catalog \<Rightarrow> (string \<Rightarrow> string list option)" where
  "get_primary_keys cat = collect_primary_keys (cat_primary_key_rows cat) Map.empty"

definition get_foreign_keys :: "'v catalog \<Rightarrow> fk_row list" where
  "get_foreign_keys cat = cat_foreign_keys cat"

text \<open>
  \<open>get_sample_data\<close>: every exception raised between \<open>cursor.execute\<close> and the
  \<open>return\<close> is caught and the empty list returned; besides a failing fetch that is a row
  shorter than the list of column names (\<open>row[i]\<close> raises).
\<close>

definition row_dict :: "string list \<Rightarrow> 'v list \<Rightarrow> 'v row" where
  "row_dict columns row = fold (\<lambda>(column, v) d. AList.update column v d) (zip columns row) []"

definition get_sample_data :: "'v catalog \<Rightarrow> string \<Rightarrow> nat \<Rightarrow> 'v row list" where
  "get_sample_data cat table_name limit =
     (case cat_sample cat table_name limit of
        Inl e \<Rightarrow> []
      | Inr (columns, rows) \<Rightarrow>
          if list_all (\<lambda>row. length columns \<le> length row) rows
          then map (row_dict columns) rows
          else [])"

text \<open>
  The loop over the columns of one table. It threads the analyzer's memo and the
  snapshot's \<open>column_semantics\<close>, and returns the processed columns.
\<close>

fun process_columns ::
  "comment_store \<Rightarrow> string \<Rightarrow> raw_column list \<Rightarrow> memo \<Rightarrow> (string \<Rightarrow> string option)
     \<Rightarrow> column_info list \<times> memo \<times> (string \<Rightarrow> string option)" where
  "process_columns store table [] m sems = ([], m, sems)"
| "process_columns store table (column # rest) m sems =
     (case infer_column_semantics store m table (c_name column) (c_type column) of
        (semantics, m1) \<Rightarrow>
          (let column_with_semantics =
                 raw_column.extend column
                   (column_info.fields (if semantics \<noteq> [] then Some semantics else None));
               sems1 = (if semantics \<noteq> []
                        then sems(column_key table (c_name column) \<mapsto> semantics) else sems)
           in case process_columns store table rest m1 sems1 of
                (processed, m2, sems2) \<Rightarrow> (column_with_semantics # processed, m2, sems2)))"

fun analyze_tables ::
  "'v catalog \<Rightarrow> string list \<Rightarrow> memo \<Rightarrow> 'v schema_info \<Rightarrow> 'v schema_info \<times> memo" where
  "analyze_tables cat [] m info = (info, m)"
| "analyze_tables cat (table # rest) m info =
     (let columns = cat_columns cat table;
          table_comment = get_comment_for_table cat table
      in case process_columns (cat_column_comments cat) table columns m (si_column_semantics info) of
           (processed_columns, m1, sems1) \<Rightarrow>
             (let info1 = info\<lparr>si_tables :=
                                 AList.update table
                                   \<lparr>t_columns = processed_columns, t_comment = table_comment\<rparr>
                                   (si_tables info),
                               si_column_semantics := sems1\<rparr>;
                  sample_data = get_sample_data cat table 3;
                  info2 = (if sample_data \<noteq> []
                           then info1\<lparr>si_sample_data := (si_sample_data info1)(table \<mapsto> sample_data)\<rparr>
                           else info1)
              in analyze_tables cat rest m1 info2))"

definition to_relationship :: "fk_row \<Rightarrow> relationship" where
  "to_relationship fk =
     \<lparr>r_table = fk_table fk, r_column = fk_column fk,
      r_references_table = fk_foreign_table fk, r_references_column = fk_foreign_column fk\<rparr>"

text \<open>
  \<open>analyze_schema\<close> returns the snapshot and the analyzer's memo after the call: its
  last assignment makes the snapshot's \<open>column_semantics\<close> the memo.
\<close>

definition analyze_schema :: "'v catalog \<Rightarrow> memo \<Rightarrow> 'v schema_info \<times> memo" where
  "analyze_schema cat m =
     (let tables = cat_tables cat;
          foreign_keys = get_foreign_keys cat;
          primary_keys = get_primary_keys cat;
          schema_info = \<lparr>si_tables = [], si_relationships = [], si_primary_keys = primary_keys,
                         si_sample_data = Map.empty, si_column_semantics = Map.empty\<rparr>
      in case analyze_tables cat tables m schema_info of
           (info, m1) \<Rightarrow>
             (let info' = info\<lparr>si_relationships := map to_relationship foreign_keys\<rparr>
              in (info', m1\<lparr>column_semantics := si_column_semantics info'\<rparr>)))"

section \<open>Prompt renderer\<close>

text \<open>
  How Python prints a sample value is not part of the program: \<open>repr_row\<close> is the text
  of a row dictionary inside an f-string and \<open>str_value\<close> is \<open>str\<close> of one value.
  Both renderers are given the snapshot they would read from \<open>self.schema_info\<close>.
\<close>

record 'v fmt =
  repr_row :: "'v row \<Rightarrow> string"
  str_value :: "'v \<Rightarrow> string"

text \<open>\<open>self.schema_info["column_semantics"].get(key, "")\<close>\<close>

definition semantic_of :: "'v schema_info \<Rightarrow> string \<Rightarrow> string \<Rightarrow> string" where
  "semantic_of si table_name column_name =
     (case si_column_semantics si (column_key table_name column_name) of
        Some s \<Rightarrow> s
      | None \<Rightarrow> [])"

subsection \<open>\<open>generate_schema_description\<close>\<close>

definition describe_column :: "column_info \<Rightarrow> string" where
  "describe_column column =
     (let nullable = (if c_nullable column = ''YES'' then ''NULL'' else ''NOT NULL'');
          default = (case c_default column of
                       Some d \<Rightarrow> if d \<noteq> [] then '', DEFAULT: '' @ d else []
                     | None \<Rightarrow> [])
      in ''  - '' @ c_name column @ '' ('' @ c_type column @ '', '' @ nullable @ default @ '')''
         @ (case c_semantics column of
              Some sem \<Rightarrow> if sem \<noteq> [] then '' - '' @ sem else []
            | None \<Rightarrow> [])
         @ nl)"

definition describe_sample_rows :: "'v fmt \<Rightarrow> 'v row list \<Rightarrow> string" where
  "describe_sample_rows f rows =
     concat (map (\<lambda>(i, row). ''  Row '' @ i @ '': '' @ repr_row f row @ nl)
                 (zip [''1'', ''2''] (take 2 rows)))"

definition describe_table :: "'v fmt \<Rightarrow> 'v schema_info \<Rightarrow> string \<times> table_info \<Rightarrow> string" where
  "describe_table f si entry =
     (case entry of (table_name, info) \<Rightarrow>
        ''Table: '' @ table_name
        @ (if t_comment info \<noteq> [] then '' - '' @ t_comment info else [])
        @ nl
        @ ''Columns:'' @ nl
        @ concat (map describe_column (t_columns info))
        @ (case si_primary_keys si table_name of
             Some pk_columns \<Rightarrow> ''  Primary Key: '' @ py_join '', '' pk_columns @ nl
           | None \<Rightarrow> [])
        @ (case si_sample_data si table_name of
             Some rows \<Rightarrow> ''Sample data:'' @ nl @ describe_sample_rows f rows
           | None \<Rightarrow> [])
        @ nl)"

definition describe_connective :: "string \<Rightarrow> string \<Rightarrow> string \<Rightarrow> string" where
  "describe_connective fk_semantic pk_semantic references_table =
     ''    (Connects ''
     @ (if fk_semantic \<noteq> [] then fk_semantic @ '' '' else [])
     @ ''to ''
     @ (if pk_semantic \<noteq> [] then pk_semantic else references_table)
     @ '')'' @ nl"

definition describe_relationship :: "'v schema_info \<Rightarrow> relationship \<Rightarrow> string" where
  "describe_relationship si rel =
     (let fk_semantic = semantic_of si (r_table rel) (r_column rel);
          pk_semantic = semantic_of si (r_references_table rel) (r_references_column rel)
      in ''  - '' @ r_table rel @ ''.'' @ r_column rel @ '' references ''
         @ r_references_table rel @ ''.'' @ r_references_column rel @ nl
         @ (if fk_semantic \<noteq> [] \<or> pk_semantic \<noteq> []
            then describe_connective fk_semantic pk_semantic (r_references_table rel)
            else []))"

definition generate_schema_description :: "'v fmt \<Rightarrow> 'v schema_info \<Rightarrow> string" where
  "generate_schema_description f si =
     ''Database Schema:'' @ nl @ nl
     @ concat (map (describe_table f si) (si_tables si))
     @ (if si_relationships si \<noteq> []
        then ''Relationships:'' @ nl @ concat (map (describe_relationship si) (si_relationships si))
        else [])"

subsection \<open>\<open>generate_schema_for_llm\<close>\<close>

definition llm_guidance :: string where
  "llm_guidance =
     nl
     @ ''When interpreting column names and generating SQL queries, please note:'' @ nl
     @ ''- Date columns with different names usually have specific meanings (e.g., order_date vs. delivery_date vs. dispatch_date)'' @ nl
     @ ''- Primary keys are used to uniquely identify records'' @ nl
     @ ''- Foreign keys represent relationships between tables'' @ nl
     @ ''- Column semantics describe the intended meaning and use of each column'' @ nl
     @ ''- Respect data types when comparing or filtering values'' @ nl
     @ ''- Use appropriate joins based on the relationships defined below'' @ nl
     @ nl"

definition llm_column :: "string list \<Rightarrow> column_info \<Rightarrow> string" where
  "llm_column pk_columns column =
     (let nullable = (if c_nullable column = ''YES'' then ''YES'' else ''NO'');
          default = (case c_default column of Some d \<Rightarrow> d | None \<Rightarrow> ''None'');
          is_pk = (if c_name column \<in> set pk_columns then ''YES'' else ''NO'');
          semantics = (case c_semantics column of Some sem \<Rightarrow> sem | None \<Rightarrow> [])
      in ''| '' @ c_name column @ '' | '' @ c_type column @ '' | '' @ nullable @ '' | ''
         @ default @ '' | '' @ is_pk @ '' | '' @ semantics @ '' |'' @ nl)"

text \<open>
  \<open>row[k]\<close> for every key of the first row: a key that a later row lacks raises
  \<open>KeyError\<close>, which leaves the renderer.
\<close>

datatype py_error = KeyError string

fun llm_row_values :: "'v fmt \<Rightarrow> string list \<Rightarrow> 'v row \<Rightarrow> py_error + string list" where
  "llm_row_values f [] row = Inr []"
| "llm_row_values f (k # ks) row =
     (case map_of row k of
        None \<Rightarrow> Inl (KeyError k)
      | Some v \<Rightarrow>
          (case llm_row_values f ks row of
             Inl e \<Rightarrow> Inl e
           | Inr vs \<Rightarrow> Inr (str_value f v # vs)))"

fun llm_rows :: "'v fmt \<Rightarrow> string list \<Rightarrow> 'v row list \<Rightarrow> py_error + string" where
  "llm_rows f keys [] = Inr []"
| "llm_rows f keys (row # rows) =
     (case llm_row_values f keys row of
        Inl e \<Rightarrow> Inl e
      | Inr vs \<Rightarrow>
          (case llm_rows f keys rows of
             Inl e \<Rightarrow> Inl e
           | Inr text \<Rightarrow> Inr (py_join '', '' vs @ nl @ text)))"

definition llm_sample_block :: "'v fmt \<Rightarrow> 'v row list option \<Rightarrow> py_error + string" where
  "llm_sample_block f sample =
     (case sample of
        None \<Rightarrow> Inr []
      | Some [] \<Rightarrow> Inr []
      | Some (first # others) \<Rightarrow>
          (let keys = map fst first
           in case llm_rows f keys (take 2 (first # others)) of
                Inl e \<Rightarrow> Inl e
              | Inr text \<Rightarrow>
                  Inr (nl @ ''Sample data:'' @ nl @ ''```'' @ nl
                       @ py_join '', '' keys @ nl @ text @ ''```'' @ nl)))"

definition llm_table :: "'v fmt \<Rightarrow> 'v schema_info \<Rightarrow> string \<times> table_info \<Rightarrow> py_error + string" where
  "llm_table f si entry =
     (case entry of (table_name, info) \<Rightarrow>
        (let pk_columns = (case si_primary_keys si table_name of Some pk \<Rightarrow> pk | None \<Rightarrow> [])
         in case llm_sample_block f (si_sample_data si table_name) of
              Inl e \<Rightarrow> Inl e
            | Inr sample_text \<Rightarrow>
                Inr (''## Table: '' @ table_name
                     @ (if t_comment info \<noteq> [] then '' - '' @ t_comment info else [])
                     @ nl @ nl
                     @ ''| Column Name | Data Type | Nullable | Default | Primary Key | Meaning |'' @ nl
                     @ ''|------------|-----------|----------|---------|-------------|--------|'' @ nl
                     @ concat (map (llm_column pk_columns) (t_columns info))
                     @ sample_text
                     @ nl)))"

fun llm_tables :: "'v fmt \<Rightarrow> 'v schema_info \<Rightarrow> (string \<times> table_info) list \<Rightarrow> py_error + string" where
  "llm_tables f si [] = Inr []"
| "llm_tables f si (entry # entries) =
     (case llm_table f si entry of
        Inl e \<Rightarrow> Inl e
      | Inr text \<Rightarrow>
          (case llm_tables f si entries of
             Inl e \<Rightarrow> Inl e
           | Inr rest_text \<Rightarrow> Inr (text @ rest_text)))"

text \<open>The arrow of the relationship line is U+2192, three bytes in UTF-8.\<close>

definition arrow :: string where
  "arrow = [CHR 0xE2, CHR 0x86, CHR 0x92]"

definition llm_connective :: "string \<Rightarrow> string \<Rightarrow> string \<Rightarrow> string" where
  "llm_connective fk_semantic pk_semantic references_table =
     '' (Connects ''
     @ (if fk_semantic \<noteq> [] then fk_semantic @ '' '' else [])
     @ ''to ''
     @ (if pk_semantic \<noteq> [] then pk_semantic else references_table)
     @ '')''"

definition llm_relationship :: "'v schema_info \<Rightarrow> relationship \<Rightarrow> string" where
  "llm_relationship si rel =
     (let fk_semantic = semantic_of si (r_table rel) (r_column rel);
          pk_semantic = semantic_of si (r_references_table rel) (r_references_column rel)
      in ''- '' @ r_table rel @ ''.'' @ r_column rel @ '' '' @ arrow @ '' ''
         @ r_references_table rel @ ''.'' @ r_references_column rel
         @ (if fk_semantic \<noteq> [] \<or> pk_semantic \<noteq> []
            then llm_connective fk_semantic pk_semantic (r_references_table rel)
            else [])
         @ nl)"

definition date_columns_of :: "(string \<times> table_info) list \<Rightarrow> (string \<times> string) list" where
  "date_columns_of tables =
     fold (\<lambda>(table, info) acc.
             fold (\<lambda>column acc'.
                     if c_type column \<in> set date_types
                     then (case c_semantics column of
                             Some sem \<Rightarrow>
                               if sem \<noteq> []
                               then AList.update (column_key table (c_name column)) sem acc'
                               else acc'
                           | None \<Rightarrow> acc')
                     else acc')
                  (t_columns info) acc)
          tables []"

definition llm_date_reference :: "(string \<times> string) list \<Rightarrow> string" where
  "llm_date_reference date_columns =
     (if date_columns \<noteq> []
      then nl @ ''## Date/Time Column Reference'' @ nl @ nl
           @ ''| Column | Meaning |'' @ nl
           @ ''|--------|--------|'' @ nl
           @ concat (map (\<lambda>(col, meaning). ''| '' @ col @ '' | '' @ meaning @ '' |'' @ nl) date_columns)
      else [])"

definition generate_schema_for_llm :: "'v fmt \<Rightarrow> 'v schema_info \<Rightarrow> py_error + string" where
  "generate_schema_for_llm f si =
     (case llm_tables f si (si_tables si) of
        Inl e \<Rightarrow> Inl e
      | Inr tables_text \<Rightarrow>
          Inr (''# Database Schema'' @ nl @ nl
               @ llm_guidance
               @ tables_text
               @ (if si_relationships si \<noteq> []
                  then ''## Relationships'' @ nl @ nl
                       @ concat (map (llm_relationship si) (si_relationships si))
                  else [])
               @ llm_date_reference (date_columns_of (si_tables si))))"

section \<open>Query execution and the question flow of \<open>main\<close>\<close>

text \<open>
  The session holds what the flow reads and writes: the analyzer's connection, the query
  history of \<open>st.session_state\<close>, the brief rendered for the model, and a log of what the
  flow did, oldest first. A connection object is live, closed (the driver knows it and
  \<open>cursor()\<close> raises) or broken (the server is gone and the driver finds out when the
  query is sent). The environment gives what the collaborators answer: whether
  \<open>psycopg2.connect\<close> succeeds, what the engine returns for a query on a live
  connection, the model's raw answer to a question, its explanation of results or of an
  error (both calls can fail in transport), and the clock.
\<close>

datatype conn = Live | Closed | Broken

datatype event =
    Connect
  | CursorExecute string
  | CallExecuteQuery string
  | ShowSql string
  | ShowAnswer string
  | ShowErrorAnalysis string
  | ShowError string
  | ShowWarning string
  | ShowInfo string
  | ShowSuccess
  | Stop

record history_entry =
  h_question :: string
  h_sql_query :: string
  h_results_count :: nat
  h_explanation :: string
  h_timestamp :: string

type_synonym 'v query_result = "'v row list \<times> string list"

record 'v env =
  env_connect_error :: "string option"
  env_run :: "string \<Rightarrow> string + 'v query_result"
  env_lost_error :: string
  env_generate :: "string \<Rightarrow> string \<Rightarrow> string + string"
  env_explain :: "string \<Rightarrow> string \<Rightarrow> 'v row list \<Rightarrow> string option \<Rightarrow> string + string"
  env_now :: string

record session =
  connection :: "conn option"
  query_history :: "history_entry list"
  events :: "event list"
  schema_for_llm :: string

definition log :: "event list \<Rightarrow> session \<Rightarrow> session" where
  "log evs s = s\<lparr>events := events s @ evs\<rparr>"

definition connect :: "'v env \<Rightarrow> session \<Rightarrow> (bool \<times> string) \<times> session" where
  "connect env s =
     (case env_connect_error env of
        None \<Rightarrow> ((True, ''Connected to PostgreSQL database successfully!''),
                 (log [Connect] s)\<lparr>connection := Some Live\<rparr>)
      | Some e \<Rightarrow> ((False, ''Error connecting to PostgreSQL database: '' @ e), log [Connect] s))"

text \<open>
  \<open>DatabaseAnalyzer.execute_query\<close>. The result of \<open>connect\<close> is dropped. The call of
  \<open>cursor()\<close> is outside the \<open>try\<close>, so what it raises leaves the method as it is;
  what \<open>cursor.execute\<close> raises is wrapped.
\<close>

definition execute_query ::
  "'v env \<Rightarrow> session \<Rightarrow> string \<Rightarrow> (string + 'v query_result) \<times> session" where
  "execute_query env s query =
     (let s1 = (if connection s = None then snd (connect env s) else s)
      in case connection s1 of
           None \<Rightarrow> (Inl ([CHR 0x27] @ ''NoneType'' @ [CHR 0x27] @ '' object has no attribute ''
                         @ [CHR 0x27] @ ''cursor'' @ [CHR 0x27]), s1)
         | Some Closed \<Rightarrow> (Inl ''connection already closed'', s1)
         | Some Broken \<Rightarrow>
             (Inl (''Error executing query: '' @ env_lost_error env),
              (log [CursorExecute query] s1)\<lparr>connection := Some Closed\<rparr>)
         | Some Live \<Rightarrow>
             (case env_run env query of
                Inl e \<Rightarrow> (Inl (''Error executing query: '' @ e), log [CursorExecute query] s1)
              | Inr r \<Rightarrow> (Inr r, log [CursorExecute query] s1)))"

definition append_history :: "history_entry \<Rightarrow> session \<Rightarrow> session" where
  "append_history entry s = s\<lparr>query_history := query_history s @ [entry]\<rparr>"

text \<open>
  The \<open>except\<close> branch of the generated query in \<open>streamlit.py\<close>: the error is shown,
  the model is asked to explain it, and the user may press "Execute Fixed Query" with an
  edited text (\<open>fix = Some fixed_query\<close>) or not (\<open>None\<close>).
\<close>

definition main_repair ::
  "'v env \<Rightarrow> session \<Rightarrow> string \<Rightarrow> string \<Rightarrow> string \<Rightarrow> string option \<Rightarrow> session" where
  "main_repair env s question sql_query e fix =
     (let s1 = log [ShowError (''Error executing the query: '' @ e)] s
      in case env_explain env question sql_query [] (Some e) of
           Inl x \<Rightarrow> log [ShowError (''Error generating SQL: '' @ x)] s1
         | Inr error_explanation \<Rightarrow>
             (let s2 = log [ShowErrorAnalysis error_explanation] s1
              in case fix of
                   None \<Rightarrow> s2
                 | Some fixed_query \<Rightarrow>
                     (case execute_query env (log [CallExecuteQuery fixed_query] s2) fixed_query of
                        (Inr (results, columns), s3) \<Rightarrow>
                          append_history
                            \<lparr>h_question = ''FIXED: '' @ question, h_sql_query = fixed_query,
                             h_results_count = length results,
                             h_explanation = ''Manually fixed query'',
                             h_timestamp = env_now env\<rparr>
                            (log [ShowSuccess] s3)
                      | (Inl e2, s3) \<Rightarrow>
                          log [ShowError (''Error executing fixed query: '' @ e2)] s3)))"

text \<open>
  The branch of \<open>main\<close> in \<open>streamlit.py\<close> that runs when a question is submitted with
  the database connected and the model interface initialised. An exception of the
  explanation call after a successful execution is caught by the same \<open>except\<close> as an
  execution error.
\<close>

definition main_submit :: "'v env \<Rightarrow> session \<Rightarrow> string \<Rightarrow> string option \<Rightarrow> session" where
  "main_submit env s question fix =
     (case env_generate env (schema_for_llm s) question of
        Inl x \<Rightarrow> log [ShowError (''Error generating SQL: '' @ x)] s
      | Inr raw_response \<Rightarrow>
          (let sql_query = extract_sql_from_response raw_response;
               s1 = log [ShowSql sql_query, CallExecuteQuery sql_query] s
           in case execute_query env s1 sql_query of
                (Inl e, s2) \<Rightarrow> main_repair env s2 question sql_query e fix
              | (Inr (results, columns), s2) \<Rightarrow>
                  (case env_explain env question sql_query results None of
                     Inl x \<Rightarrow> main_repair env s2 question sql_query x fix
                   | Inr explanation \<Rightarrow>
                       append_history
                         \<lparr>h_question = question, h_sql_query = sql_query,
                          h_results_count = length results,
                          h_explanation = explanation,
                          h_timestamp = env_now env\<rparr>
                         (log [ShowAnswer explanation] s2))))"

text \<open>The "Execute Manual Query" branch of \<open>main\<close>.\<close>

definition main_manual :: "'v env \<Rightarrow> session \<Rightarrow> string \<Rightarrow> session" where
  "main_manual env s manual_query =
     (if manual_query = [] then log [ShowError ''Please enter a SQL query.''] s
      else case execute_query env (log [CallExecuteQuery manual_query] s) manual_query of
             (Inr (results, columns), s1) \<Rightarrow>
               append_history
                 \<lparr>h_question = ''MANUAL QUERY'', h_sql_query = manual_query,
                  h_results_count = length results,
                  h_explanation = ''Manually entered query'',
                  h_timestamp = env_now env\<rparr>
                 (log [ShowSuccess] s1)
           | (Inl e, s1) \<Rightarrow> log [ShowError (''Error executing the query: '' @ e)] s1)"

subsection \<open>The same flow in \<open>ui/streamlit.py\<close>\<close>

text \<open>
  \<open>ui/streamlit.py\<close> imports its analyzer from a module that is not among the sources, so
  the three methods it calls are parameters here: any functions on the session.
\<close>

record 'v ui_analyzer =
  ui_check_connection_health :: "session \<Rightarrow> bool \<times> session"
  ui_connect :: "session \<Rightarrow> (bool \<times> string) \<times> session"
  ui_execute_query :: "session \<Rightarrow> string \<Rightarrow> (string + 'v query_result) \<times> session"

text \<open>
  The health check, the reconnection and the execution; \<open>None\<close> is \<open>st.stop()\<close>.
\<close>

definition ui_guarded_execute ::
  "'v ui_analyzer \<Rightarrow> session \<Rightarrow> string \<Rightarrow> (string + 'v query_result) option \<times> session" where
  "ui_guarded_execute an s query =
     (case ui_check_connection_health an s of
        (True, s1) \<Rightarrow>
          (case ui_execute_query an (log [CallExecuteQuery query] s1) query of
             (r, s2) \<Rightarrow> (Some r, s2))
      | (False, s1) \<Rightarrow>
          (case ui_connect an
                  (log [ShowWarning ''Database connection issue detected. Attempting to reconnect...''] s1) of
             ((True, message), s2) \<Rightarrow>
               (case ui_execute_query an (log [CallExecuteQuery query] s2) query of
                  (r, s3) \<Rightarrow> (Some r, s3))
           | ((False, message), s2) \<Rightarrow>
               (None, log [ShowError (''Could not reconnect to database: '' @ message),
                           ShowInfo ''Please wait a moment and try again.'', Stop] s2)))"

definition ui_repair ::
  "'v ui_analyzer \<Rightarrow> 'v env \<Rightarrow> session \<Rightarrow> string \<Rightarrow> string \<Rightarrow> string \<Rightarrow> string option \<Rightarrow> session" where
  "ui_repair an env s question sql_query e fix =
     (let s1 = log [ShowError (''Error executing the query: '' @ e)] s
      in case env_explain env question sql_query [] (Some e) of
           Inl x \<Rightarrow> log [ShowError (''Error generating SQL: '' @ x)] s1
         | Inr error_explanation \<Rightarrow>
             (let s2 = log [ShowErrorAnalysis error_explanation] s1
              in case fix of
                   None \<Rightarrow> s2
                 | Some fixed_query \<Rightarrow>
                     (case ui_guarded_execute an s2 fixed_query of
                        (None, s3) \<Rightarrow> s3
                      | (Some (Inr (results, columns)), s3) \<Rightarrow>
                          append_history
                            \<lparr>h_question = ''FIXED: '' @ question, h_sql_query = fixed_query,
                             h_results_count = length results,
                             h_explanation = ''Manually fixed query'',
                             h_timestamp = env_now env\<rparr>
                            (log [ShowSuccess] s3)
                      | (Some (Inl e2), s3) \<Rightarrow>
                          log [ShowError (''Error executing fixed query: '' @ e2)] s3)))"

definition ui_submit ::
  "'v ui_analyzer \<Rightarrow> 'v env \<Rightarrow> session \<Rightarrow> string \<Rightarrow> string option \<Rightarrow> session" where
  "ui_submit an env s question fix =
     (case env_generate env (schema_for_llm s) question of
        Inl x \<Rightarrow> log [ShowError (''Error generating SQL: '' @ x)] s
      | Inr raw_response \<Rightarrow>
          (let sql_query = extract_sql_from_response raw_response
           in if sql_query = [] then
                log [ShowError ''Failed to generate a valid SQL query. The LLM did not provide a query in the correct format (between triple backticks).'',
                     Stop] s
              else
                (case ui_guarded_execute an (log [ShowSql sql_query] s) sql_query of
                   (None, s1) \<Rightarrow> s1
                 | (Some (Inl e), s1) \<Rightarrow> ui_repair an env s1 question sql_query e fix
                 | (Some (Inr (results, columns)), s1) \<Rightarrow>
                     (case env_explain env question sql_query results None of
                        Inl x \<Rightarrow> ui_repair an env s1 question sql_query x fix
                      | Inr explanation \<Rightarrow>
                          append_history
                            \<lparr>h_question = question, h_sql_query = sql_query,
                             h_results_count = length results,
                             h_explanation = explanation,
                             h_timestamp = env_now env\<rparr>
                            (log [ShowAnswer explanation] s1)))))"

section \<open>Reference formulations and example inputs\<close>



text \<open>
  The catalog of the end-to-end scenario: one table \<open>orders\<close> with an integer primary
  key, an integer foreign key to \<open>customers.id\<close> and two timestamp columns; no comments
  and no sample rows.
\<close>

definition orders_catalog :: "nat catalog" where
  "orders_catalog =
     \<lparr>cat_tables = [''orders''],
      cat_columns = (\<lambda>t. if t = ''orders'' then
         [\<lparr>c_name = ''order_id'', c_type = ''integer'', c_nullable = ''NO'', c_default = None,
           c_max_length = None, c_precision = Some 32, c_scale = Some 0\<rparr>,
          \<lparr>c_name = ''customer_id'', c_type = ''integer'', c_nullable = ''NO'', c_default = None,
           c_max_length = None, c_precision = Some 32, c_scale = Some 0\<rparr>,
          \<lparr>c_name = ''order_date'', c_type = ''timestamp'', c_nullable = ''YES'', c_default = None,
           c_max_length = None, c_precision = None, c_scale = None\<rparr>,
          \<lparr>c_name = ''delivery_date'', c_type = ''timestamp'', c_nullable = ''YES'', c_default = None,
           c_max_length = None, c_precision = None, c_scale = None\<rparr>] else []),
      cat_foreign_keys = [\<lparr>fk_table = ''orders'', fk_column = ''customer_id'',
                           fk_foreign_table = ''customers'', fk_foreign_column = ''id''\<rparr>],
      cat_primary_key_rows = [(''orders'', ''order_id'')],
      cat_column_comments = Map.empty,
      cat_table_comments = Map.empty,
      cat_sample = (\<lambda>t n. Inr ([], []))\<rparr>"

text \<open>
  A run of calls of \<open>infer_column_semantics\<close>, each given as table, column and declared
  type, on one analyzer and one comment store; the number of lookups made so far for the
  columns of one key; and that number plus one while the key is not in the memo.
\<close>

fun run_infers :: "comment_store \<Rightarrow> memo \<Rightarrow> (string \<times> string \<times> string) list \<Rightarrow> memo" where
  "run_infers store m [] = m"
| "run_infers store m ((table_name, column_name, data_type) # calls) =
     run_infers store (snd (infer_column_semantics store m table_name column_name data_type)) calls"

definition lookups_for :: "string \<Rightarrow> memo \<Rightarrow> nat" where
  "lookups_for key m = length (filter (\<lambda>(t, c). column_key t c = key) (comment_queries m))"

definition lookup_budget :: "string \<Rightarrow> memo \<Rightarrow> nat" where
  "lookup_budget key m = lookups_for key m + (if column_semantics m key = None then 1 else 0)"

text \<open>
  Two situations for the stored comment. In one the store does not change: it holds
  comments for the column \<open>region\<close> of a table named \<open>sales.eu\<close> and for the column
  \<open>eu.region\<close> of a table named \<open>sales\<close>. In the other, \<open>orders.order_date\<close>
  was inferred while the store held no comment for it (\<open>stale_memo\<close> is the analyzer
  after that call) and the store has the comment now.
\<close>

definition stale_memo :: memo where
  "stale_memo =
     snd (infer_column_semantics Map.empty empty_memo ''orders'' ''order_date'' ''timestamp'')"

definition commented_store :: comment_store where
  "commented_store = [(''orders'', ''order_date'') \<mapsto> ''Placed at (UTC)'']"

definition dotted_store :: comment_store where
  "dotted_store = [(''sales.eu'', ''region'') \<mapsto> ''EU sales region'',
                   (''sales'', ''eu.region'') \<mapsto> ''Region code of the EU branch'']"



text \<open>
  The extraction in words. The first fenced block: the text after the first fence of the
  response, without a leading \<open>sql\<close>, up to the next fence; there is none when either
  fence is missing. A label is removed together with an optional colon and the whitespace
  after it; the labels are tried in the order of the table, in any letter case.
  Backticks are removed by filtering.
\<close>

fun before_first :: "string \<Rightarrow> string \<Rightarrow> string option" where
  "before_first pat [] = (if pat = [] then Some [] else None)"
| "before_first pat (c # cs) =
     (if prefix pat (c # cs) then Some [] else map_option ((#) c) (before_first pat cs))"

fun after_first :: "string \<Rightarrow> string \<Rightarrow> string option" where
  "after_first pat [] = (if pat = [] then Some [] else None)"
| "after_first pat (c # cs) =
     (if prefix pat (c # cs) then Some (drop (length pat) (c # cs)) else after_first pat cs)"

definition untag :: "string \<Rightarrow> string" where
  "untag rest = (if prefix ''sql'' rest then drop 3 rest else rest)"

definition first_fenced_block :: "string \<Rightarrow> string option" where
  "first_fenced_block response =
     (case after_first ''```'' response of
        None \<Rightarrow> None
      | Some rest \<Rightarrow> before_first ''```'' (untag rest))"

fun strip_first_label :: "string list \<Rightarrow> string \<Rightarrow> string" where
  "strip_first_label [] s = s"
| "strip_first_label (label # labels) s =
     (case match_ci label s of
        Some rest \<Rightarrow> lstrip (drop_colon rest)
      | None \<Rightarrow> strip_first_label labels s)"

definition extract_sql_amended :: "string \<Rightarrow> string" where
  "extract_sql_amended response =
     filter (\<lambda>c. c \<noteq> CHR ''`'')
       (strip_first_label [''sql query'', ''query'', ''sql'']
          (py_strip (case first_fenced_block response of Some block \<Rightarrow> block | None \<Rightarrow> response)))"

text \<open>
  The extraction as the specification words it: it differs from the one above in the
  labels, which end with their colon. (The whitespace after the label is dropped, as the
  specification's own example \<open>SQL: SELECT 1;\<close> needs.)
\<close>

fun strip_label_spec :: "string list \<Rightarrow> string \<Rightarrow> string" where
  "strip_label_spec [] s = s"
| "strip_label_spec (label # labels) s =
     (case match_ci label s of
        Some rest \<Rightarrow> lstrip rest
      | None \<Rightarrow> strip_label_spec labels s)"

definition extract_sql_spec :: "string \<Rightarrow> string" where
  "extract_sql_spec response =
     filter (\<lambda>c. c \<noteq> CHR ''`'')
       (strip_label_spec [''sql query:'', ''query:'', ''sql:'']
          (py_strip (case first_fenced_block response of Some block \<Rightarrow> block | None \<Rightarrow> response)))"





text \<open>
  The model brief reads, in the first two sample rows of a table, every key of the first
  row; \<open>rows_renderable\<close> says that they are all there, and \<open>snapshot_renderable\<close>
  says it of every table of the snapshot. \<open>described_connection\<close> and
  \<open>briefed_connection\<close> are the lines expected of the two renderers for a relationship
  whose owning column has a label and whose referenced column has none: the relationship
  and the sentence that connects the owning column's label to the referenced table.
\<close>

definition rows_renderable :: "'v row list \<Rightarrow> bool" where
  "rows_renderable rows =
     (case rows of
        [] \<Rightarrow> True
      | first # others \<Rightarrow>
          list_all (\<lambda>row. list_all (\<lambda>k. map_of row k \<noteq> None) (map fst first))
                   (take 2 (first # others)))"

definition snapshot_renderable :: "'v schema_info \<Rightarrow> bool" where
  "snapshot_renderable si =
     list_all (\<lambda>entry. case si_sample_data si (fst entry) of
                          None \<Rightarrow> True
                        | Some rows \<Rightarrow> rows_renderable rows)
              (si_tables si)"

definition described_connection :: "'v schema_info \<Rightarrow> relationship \<Rightarrow> string" where
  "described_connection si rel =
     ''  - '' @ r_table rel @ ''.'' @ r_column rel @ '' references ''
     @ r_references_table rel @ ''.'' @ r_references_column rel @ nl
     @ ''    (Connects '' @ semantic_of si (r_table rel) (r_column rel)
     @ '' to '' @ r_references_table rel @ '')'' @ nl"

definition briefed_connection :: "'v schema_info \<Rightarrow> relationship \<Rightarrow> string" where
  "briefed_connection si rel =
     ''- '' @ r_table rel @ ''.'' @ r_column rel @ '' '' @ arrow @ '' ''
     @ r_references_table rel @ ''.'' @ r_references_column rel
     @ '' (Connects '' @ semantic_of si (r_table rel) (r_column rel)
     @ '' to '' @ r_references_table rel @ '')'' @ nl"

definition plain_fmt :: "nat fmt" where
  "plain_fmt = \<lparr>repr_row = (\<lambda>row. ''{}''), str_value = (\<lambda>v. ''0'')\<rparr>"

definition orders_customer_fk :: relationship where
  "orders_customer_fk =
     \<lparr>r_table = ''orders'', r_column = ''customer_id'',
      r_references_table = ''customers'', r_references_column = ''id''\<rparr>"

text \<open>
  An environment and a session for examples: the connection is live, the engine accepts
  \<open>SELECT 1\<close> and rejects everything else, the model answers the question \<open>one?\<close>
  with a misspelt statement and any other question with an empty fenced block.
\<close>

definition demo_env :: "nat env" where
  "demo_env =
     \<lparr>env_connect_error = None,
      env_run = (\<lambda>q. if q = ''SELECT 1'' then Inr ([[(''one'', 1)]], [''one''])
                      else if q = [] then Inl ''empty query''
                      else Inl ''syntax error at or near SELEC''),
      env_lost_error = ''server closed the connection unexpectedly'',
      env_generate = (\<lambda>schema question.
                        if question = ''one?'' then Inr ''SELEC 1''
                        else Inr ''```sql```''),
      env_explain = (\<lambda>question sql_query results error.
                       case error of
                         None \<Rightarrow> Inr ''One row.''
                       | Some e \<Rightarrow> Inr ''The keyword is misspelt.''),
      env_now = ''2025-01-01 12:00:00''\<rparr>"

definition demo_session :: session where
  "demo_session =
     \<lparr>connection = Some Live, query_history = [], events = [], schema_for_llm = ''# Database Schema''\<rparr>"

section \<open>Properties of the semantic inference\<close>










subsection \<open>Memoisation\<close>

lemma infer_hit:
  "column_semantics m (column_key t c) = Some cached \<Longrightarrow>
     infer_column_semantics store m t c d = (cached, m)"
  by (simp add: infer_column_semantics_def)

lemma infer_caches_result:
  "infer_column_semantics store m t c d = (label, m1) \<Longrightarrow>
     column_semantics m1 (column_key t c) = Some label"
  by (auto simp: infer_column_semantics_def Let_def split: option.splits if_splits)

lemma infer_keeps_entries:
  "column_semantics m k = Some v \<Longrightarrow>
     column_semantics (snd (infer_column_semantics store m t c d)) k = Some v"
  by (auto simp: infer_column_semantics_def Let_def split: option.splits)

lemma run_infers_keeps_entries:
  "column_semantics m k = Some v \<Longrightarrow> column_semantics (run_infers store m calls) k = Some v"
proof (induction calls arbitrary: m)
  case Nil
  then show ?case by simp
next
  case (Cons call calls)
  obtain t c d where call: "call = (t, c, d)" by (cases call)
  from Cons.prems have "column_semantics (snd (infer_column_semantics store m t c d)) k = Some v"
    by (rule infer_keeps_entries)
  then show ?case unfolding call by (simp add: Cons.IH)
qed

lemma infer_lookup_budget:
  "lookup_budget k (snd (infer_column_semantics store m t c d)) \<le> lookup_budget k m"
  by (auto simp: infer_column_semantics_def lookup_budget_def lookups_for_def Let_def
           split: option.splits)

lemma run_infers_lookup_budget:
  "lookup_budget k (run_infers store m calls) \<le> lookup_budget k m"
proof (induction calls arbitrary: m)
  case Nil
  show ?case by simp
next
  case (Cons call calls)
  obtain t c d where call: "call = (t, c, d)" by (cases call)
  have "lookup_budget k (run_infers store (snd (infer_column_semantics store m t c d)) calls)
          \<le> lookup_budget k (snd (infer_column_semantics store m t c d))"
    by (rule Cons.IH)
  also have "\<dots> \<le> lookup_budget k m" by (rule infer_lookup_budget)
  finally show ?case unfolding call by simp
qed


lemma infer_keeps_lookups:
  "column_semantics m k = Some v \<Longrightarrow>
     lookups_for k (snd (infer_column_semantics store m t c d)) = lookups_for k m"
  by (auto simp: infer_column_semantics_def lookups_for_def Let_def split: option.splits)

lemma run_infers_keeps_lookups:
  "column_semantics m k = Some v \<Longrightarrow> lookups_for k (run_infers store m calls) = lookups_for k m"
proof (induction calls arbitrary: m)
  case Nil
  show ?case by simp
next
  case (Cons call calls)
  obtain t c d where call: "call = (t, c, d)" by (cases call)
  let ?m' = "snd (infer_column_semantics store m t c d)"
  have "column_semantics ?m' k = Some v"
    using Cons.prems by (rule infer_keeps_entries)
  then have "lookups_for k (run_infers store ?m' calls) = lookups_for k ?m'"
    by (rule Cons.IH)
  with Cons.prems show ?case
    unfolding call by (simp add: infer_keeps_lookups)
qed

lemma process_columns_lookup_budget:
  "process_columns store table columns m sems = (processed, m', sems') \<Longrightarrow>
     lookup_budget k m' \<le> lookup_budget k m"
proof (induction columns arbitrary: m sems processed m' sems')
  case Nil
  then show ?case by simp
next
  case (Cons column rest)
  obtain semantics m1 where i: "infer_column_semantics store m table (c_name column) (c_type column)
                                  = (semantics, m1)"
    by (cases "infer_column_semantics store m table (c_name column) (c_type column)")
  obtain processed' sems1 where
    r: "process_columns store table rest m1
          (if semantics \<noteq> [] then sems(column_key table (c_name column) \<mapsto> semantics) else sems)
        = (processed', m', sems1)"
    using Cons.prems i by (auto simp: Let_def split: prod.splits)
  have "lookup_budget k m' \<le> lookup_budget k m1"
    using r by (rule Cons.IH)
  also have "\<dots> \<le> lookup_budget k m"
    using infer_lookup_budget [of k store m table "c_name column" "c_type column"] i by simp
  finally show ?case .
qed

lemma analyze_tables_lookup_budget:
  "analyze_tables cat ts m info = (info', m') \<Longrightarrow> lookup_budget k m' \<le> lookup_budget k m"
proof (induction ts arbitrary: m info)
  case Nil
  then show ?case by simp
next
  case (Cons table rest)
  obtain processed m1 sems1 where
    pc: "process_columns (cat_column_comments cat) table (cat_columns cat table) m
           (si_column_semantics info) = (processed, m1, sems1)"
    by (cases "process_columns (cat_column_comments cat) table (cat_columns cat table) m
           (si_column_semantics info)") auto
  from Cons.prems pc obtain info2 where "analyze_tables cat rest m1 info2 = (info', m')"
    by (simp add: Let_def)
  then have "lookup_budget k m' \<le> lookup_budget k m1" by (rule Cons.IH)
  also have "\<dots> \<le> lookup_budget k m" using pc by (rule process_columns_lookup_budget)
  finally show ?case .
qed

lemma analyze_schema_lookups_once:
  "lookups_for k (snd (analyze_schema cat empty_memo)) \<le> 1"
proof -
  define start :: "'a schema_info" where
    "start = \<lparr>si_tables = [], si_relationships = [], si_primary_keys = get_primary_keys cat,
              si_sample_data = Map.empty, si_column_semantics = Map.empty\<rparr>"
  obtain info m1 where at: "analyze_tables cat (cat_tables cat) empty_memo start = (info, m1)"
    by (cases "analyze_tables cat (cat_tables cat) empty_memo start") auto
  have "comment_queries (snd (analyze_schema cat empty_memo)) = comment_queries m1"
    using at by (simp add: analyze_schema_def Let_def start_def)
  then have "lookups_for k (snd (analyze_schema cat empty_memo)) = lookups_for k m1"
    by (simp add: lookups_for_def)
  also have "\<dots> \<le> lookup_budget k m1" by (simp add: lookup_budget_def)
  also have "\<dots> \<le> lookup_budget k empty_memo"
    using at by (rule analyze_tables_lookup_budget)
  also have "\<dots> = 1" by (simp add: lookup_budget_def lookups_for_def empty_memo_def)
  finally show ?thesis .
qed

text \<open>
  C6. Once a call for a table, column and declared type has returned a label, a later call
  with the same three arguments on the same analyzer, whatever other calls came between,
  returns the same label and leaves the analyzer as it was: the memo answers and the
  comment store is not queried. The calls between do not query that key either, the first
  call queried it at most once, and over any run of calls from an empty memo, as over a
  whole snapshot build by a fresh analyzer, the lookups for one key number at most one.
\<close>

theorem infer_memoized:
  assumes "infer_column_semantics store m table_name column_name data_type = (label, m1)"
  shows "infer_column_semantics store (run_infers store m1 calls) table_name column_name data_type
           = (label, run_infers store m1 calls)
         \<and> lookups_for (column_key table_name column_name) (run_infers store m1 calls)
           = lookups_for (column_key table_name column_name) m1
         \<and> lookups_for (column_key table_name column_name) m1
           \<le> lookups_for (column_key table_name column_name) m + 1
         \<and> lookups_for (column_key table_name column_name) (run_infers store empty_memo session_calls)
           \<le> 1
         \<and> lookups_for (column_key table_name column_name) (snd (analyze_schema cat empty_memo))
           \<le> 1"
proof -
  let ?k = "column_key table_name column_name"
  have cached: "column_semantics m1 ?k = Some label"
    using assms by (rule infer_caches_result)
  then have "column_semantics (run_infers store m1 calls) ?k = Some label"
    by (rule run_infers_keeps_entries)
  then have again:
    "infer_column_semantics store (run_infers store m1 calls) table_name column_name data_type
       = (label, run_infers store m1 calls)"
    by (rule infer_hit)
  have between: "lookups_for ?k (run_infers store m1 calls) = lookups_for ?k m1"
    using cached by (rule run_infers_keeps_lookups)
  have "lookup_budget ?k (snd (infer_column_semantics store m table_name column_name data_type))
          \<le> lookup_budget ?k m"
    by (rule infer_lookup_budget)
  then have first: "lookups_for ?k m1 \<le> lookups_for ?k m + 1"
    using assms by (simp add: lookup_budget_def split: if_splits)
  have "lookup_budget ?k (run_infers store empty_memo session_calls) \<le> lookup_budget ?k empty_memo"
    by (rule run_infers_lookup_budget)
  then have once: "lookups_for ?k (run_infers store empty_memo session_calls) \<le> 1"
    by (simp add: lookup_budget_def lookups_for_def empty_memo_def split: if_splits)
  have build: "lookups_for ?k (snd (analyze_schema cat empty_memo)) \<le> 1"
    by (rule analyze_schema_lookups_once)
  from again between first once build show ?thesis by blast
qed

lemma first_call_order_date:
  "infer_column_semantics Map.empty empty_memo ''orders'' ''order_date'' ''timestamp''
     = (''Date when the order was placed'',
        snd (infer_column_semantics Map.empty empty_memo ''orders'' ''order_date'' ''timestamp''))"
proof -
  have "fst (infer_column_semantics Map.empty empty_memo ''orders'' ''order_date'' ''timestamp'')
          = ''Date when the order was placed''"
    by code_simp
  then show ?thesis by (simp add: prod_eq_iff)
qed

theorem infer_memoized_witness:
  "infer_column_semantics Map.empty empty_memo ''orders'' ''order_date'' ''timestamp''
     = (''Date when the order was placed'',
        snd (infer_column_semantics Map.empty empty_memo ''orders'' ''order_date'' ''timestamp''))
   \<and> fst (infer_column_semantics Map.empty
            (run_infers Map.empty
               (snd (infer_column_semantics Map.empty empty_memo ''orders'' ''order_date'' ''timestamp''))
               [(''orders'', ''delivery_date'', ''timestamp'')])
            ''orders'' ''order_date'' ''timestamp'')
       = ''Date when the order was placed''
   \<and> lookups_for (column_key ''orders'' ''order_date'')
        (run_infers Map.empty empty_memo
           [(''orders'', ''order_date'', ''timestamp''), (''orders'', ''delivery_date'', ''timestamp''),
            (''orders'', ''order_date'', ''timestamp'')]) \<le> 1"
proof -
  note w = infer_memoized [OF first_call_order_date,
      of "[(''orders'', ''delivery_date'', ''timestamp'')]"
         "[(''orders'', ''order_date'', ''timestamp''), (''orders'', ''delivery_date'', ''timestamp''),
           (''orders'', ''order_date'', ''timestamp'')]"]
  have again: "fst (infer_column_semantics Map.empty
            (run_infers Map.empty
               (snd (infer_column_semantics Map.empty empty_memo ''orders'' ''order_date'' ''timestamp''))
               [(''orders'', ''delivery_date'', ''timestamp'')])
            ''orders'' ''order_date'' ''timestamp'')
       = ''Date when the order was placed''"
    using w [THEN conjunct1] by (simp only: fst_conv)
  from w again first_call_order_date show ?thesis by blast
qed

subsection \<open>Stored comments\<close>

text \<open>
  The memo is read before the comment store. A column whose key the memo already holds
  gets the memoised label although the store holds a different, non-empty comment for it:
  with an unchanged store and a memo that started empty, when another table and column
  spell the same key; and when the comment was stored after the first call.
\<close>

theorem stored_comment_counterexample:
  "get_comment_for_column dotted_store ''sales'' ''eu.region'' = ''Region code of the EU branch''
   \<and> fst (infer_column_semantics dotted_store
            (snd (infer_column_semantics dotted_store empty_memo ''sales.eu'' ''region'' ''text''))
            ''sales'' ''eu.region'' ''text'')
       = ''EU sales region''
   \<and> get_comment_for_column commented_store ''orders'' ''order_date'' = ''Placed at (UTC)''
   \<and> fst (infer_column_semantics commented_store stale_memo ''orders'' ''order_date'' ''timestamp'')
       = ''Date when the order was placed''"
  by code_simp

text \<open>
  C1, as amended. If the comment store holds a non-empty comment for a table and column
  whose key is not yet in the memo, \<open>infer_column_semantics\<close> returns that comment
  unchanged, whatever the column's name and declared type, and stores it in the memo
  after one lookup; no pattern rule takes part. If the key is in the memo, the memoised
  label is returned and the analyzer is left as it was.
\<close>

theorem stored_comment_wins:
  assumes "store (table_name, column_name) = Some comment" and "comment \<noteq> []"
  shows "(column_semantics m (column_key table_name column_name) = None \<longrightarrow>
            infer_column_semantics store m table_name column_name data_type
              = (comment,
                 \<lparr>column_semantics = (column_semantics m)(column_key table_name column_name \<mapsto> comment),
                  comment_queries = comment_queries m @ [(table_name, column_name)]\<rparr>))
         \<and> (\<forall>cached. column_semantics m (column_key table_name column_name) = Some cached \<longrightarrow>
            infer_column_semantics store m table_name column_name data_type = (cached, m))"
  using assms
  by (simp add: infer_column_semantics_def get_comment_for_column_def Let_def)

theorem stored_comment_wins_witness:
  "commented_store (''orders'', ''order_date'') = Some ''Placed at (UTC)''
   \<and> ''Placed at (UTC)'' \<noteq> []
   \<and> column_semantics empty_memo (column_key ''orders'' ''order_date'') = None
   \<and> fst (infer_column_semantics commented_store empty_memo ''orders'' ''order_date'' ''timestamp'')
       = ''Placed at (UTC)''"
proof -
  have h1: "commented_store (''orders'', ''order_date'') = Some ''Placed at (UTC)''"
    by (simp add: commented_store_def)
  have h2: "''Placed at (UTC)'' \<noteq> []" by simp
  have h3: "column_semantics empty_memo (column_key ''orders'' ''order_date'') = None"
    by (simp add: empty_memo_def)
  from stored_comment_wins [where store = commented_store and table_name = "''orders''"
      and column_name = "''order_date''" and comment = "''Placed at (UTC)''"
      and m = empty_memo and data_type = "''timestamp''", OF h1 h2] h3
  have "fst (infer_column_semantics commented_store empty_memo ''orders'' ''order_date'' ''timestamp'')
       = ''Placed at (UTC)''"
    by simp
  with h1 h2 h3 show ?thesis by blast
qed

subsection \<open>Identifier fallback\<close>


lemma replace_from_Nil: "replace_from old new [] = []"
  by (subst replace_from.simps) simp

lemma replace_from_skip:
  "\<not> prefix old (c # cs) \<Longrightarrow> replace_from old new (c # cs) = c # replace_from old new cs"
  by (subst replace_from.simps) auto

lemma replace_from_hit:
  "old \<noteq> [] \<Longrightarrow> prefix old (c # cs) \<Longrightarrow>
     replace_from old new (c # cs) = new @ replace_from old new (drop (length old) (c # cs))"
  by (subst replace_from.simps) simp





lemma id_fallback_bare_id: "id_fallback ''id'' = ''Identifier for a id''"
  by code_simp

lemma id_fallback_inner_id: "id_fallback ''student_id_card_id'' = ''Identifier for a student_card''"
  by code_simp




section \<open>Properties of the response interpreter\<close>

lemma lazy_until_fence_before_first: "lazy_until_fence s = before_first ''```'' s"
  by (induction s) auto

lemma lazy_None_iff: "lazy_until_fence s = None \<longleftrightarrow> \<not> sublist ''```'' s"
  by (induction s) (auto simp: sublist_Cons_right)

lemma sublist_of_drop: "sublist p (drop n xs) \<Longrightarrow> sublist p xs"
  by (meson sublist_drop sublist_order.order.trans)

lemma fence_after_sql: "sublist ''```'' (''sql'' @ rest) \<Longrightarrow> sublist ''```'' rest"
  by (simp add: sublist_Cons_right)

lemma fence_in_untag: "sublist ''```'' (untag rest) \<longleftrightarrow> sublist ''```'' rest"
proof (cases "prefix ''sql'' rest")
  case True
  then obtain r where r: "rest = ''sql'' @ r" by (auto simp: prefix_def)
  have "sublist ''```'' r \<longleftrightarrow> sublist ''```'' (''sql'' @ r)"
    using fence_after_sql [of r] sublist_of_drop [of "''```''" 3 "''sql'' @ r"] by auto
  then show ?thesis using True r by (simp add: untag_def)
next
  case False
  then show ?thesis by (simp add: untag_def)
qed

lemma match_block_at_eq:
  "match_block_at s = (if prefix ''```'' s then lazy_until_fence (untag (drop 3 s)) else None)"
proof (cases "prefix ''sql'' (drop 3 s)")
  case True
  have "lazy_until_fence (drop 3 s) = None" if "lazy_until_fence (drop 3 (drop 3 s)) = None"
  proof -
    from that have "\<not> sublist ''```'' (untag (drop 3 s))"
      using True by (simp add: lazy_None_iff untag_def)
    then show ?thesis by (simp add: lazy_None_iff fence_in_untag)
  qed
  then show ?thesis
    using True by (simp only: match_block_at_def untag_def Let_def if_True split: option.splits) auto
next
  case False
  then show ?thesis
    by (simp only: match_block_at_def untag_def Let_def if_False)
qed

lemma first_block_no_close:
  "\<not> sublist ''```'' (drop 3 s) \<Longrightarrow> first_block s = None"
proof (induction s)
  case Nil
  show ?case by simp
next
  case (Cons c cs)
  have "lazy_until_fence (untag (drop 3 (c # cs))) = None"
    using Cons.prems by (simp add: lazy_None_iff fence_in_untag)
  then have m: "match_block_at (c # cs) = None"
    by (simp only: match_block_at_eq if_cancel)
  have "drop 3 cs = drop 1 (drop 3 (c # cs))" by (simp add: numeral_3_eq_3)
  then have "\<not> sublist ''```'' (drop 3 cs)"
    using Cons.prems sublist_of_drop by metis
  then have "first_block cs = None" by (rule Cons.IH)
  with m show ?case by (simp only: first_block.simps option.case)
qed

lemma after_first_hit: "prefix pat s \<Longrightarrow> after_first pat s = Some (drop (length pat) s)"
  by (cases s) auto

lemma first_fenced_block_hit:
  assumes "prefix ''```'' s"
  shows "first_fenced_block s = lazy_until_fence (untag (drop 3 s))"
proof -
  have "after_first ''```'' s = Some (drop 3 s)"
    using after_first_hit [OF assms] by (simp add: numeral_3_eq_3)
  then show ?thesis
    by (simp only: first_fenced_block_def option.case lazy_until_fence_before_first)
qed

lemma first_fenced_block_skip:
  assumes "\<not> prefix ''```'' (c # cs)"
  shows "first_fenced_block (c # cs) = first_fenced_block cs"
proof -
  have "after_first ''```'' (c # cs) = after_first ''```'' cs"
    using assms by (simp only: after_first.simps if_False)
  then show ?thesis by (simp only: first_fenced_block_def)
qed

lemma first_block_eq: "first_block s = first_fenced_block s"
proof (induction s)
  case Nil
  show ?case by (simp add: first_fenced_block_def)
next
  case (Cons c cs)
  show ?case
  proof (cases "prefix ''```'' (c # cs)")
    case True
    have ff: "first_fenced_block (c # cs) = lazy_until_fence (untag (drop 3 (c # cs)))"
      using True by (rule first_fenced_block_hit)
    have m: "match_block_at (c # cs) = lazy_until_fence (untag (drop 3 (c # cs)))"
      using True by (simp only: match_block_at_eq if_True)
    show ?thesis
    proof (cases "lazy_until_fence (untag (drop 3 (c # cs)))")
      case None
      then have "\<not> sublist ''```'' (drop 3 (c # cs))"
        by (simp add: lazy_None_iff fence_in_untag)
      moreover have "drop 3 cs = drop 1 (drop 3 (c # cs))" by (simp add: numeral_3_eq_3)
      ultimately have "\<not> sublist ''```'' (drop 3 cs)"
        using sublist_of_drop by metis
      then have "first_block cs = None" by (rule first_block_no_close)
      with None m ff show ?thesis by (simp only: first_block.simps option.case)
    next
      case (Some g)
      with m ff show ?thesis by (simp only: first_block.simps option.case)
    qed
  next
    case False
    then have "match_block_at (c # cs) = None"
      by (simp only: match_block_at_eq if_False)
    moreover have "first_fenced_block (c # cs) = first_fenced_block cs"
      using False by (rule first_fenced_block_skip)
    ultimately show ?thesis using Cons.IH by (simp only: first_block.simps option.case)
  qed
qed


lemma remove_backticks: "py_replace ''`'' [] s = filter (\<lambda>c. c \<noteq> CHR ''`'') s"
proof -
  have "replace_from ''`'' [] s = filter (\<lambda>c. c \<noteq> CHR ''`'') s"
  proof (induction s)
    case Nil
    show ?case by (simp add: replace_from_Nil)
  next
    case (Cons c cs)
    show ?case
    proof (cases "c = CHR ''`''")
      case True
      then have "replace_from ''`'' [] (c # cs) = [] @ replace_from ''`'' [] (drop (length ''`'') (c # cs))"
        by (intro replace_from_hit) simp_all
      with True Cons.IH show ?thesis by simp
    next
      case False
      then have "replace_from ''`'' [] (c # cs) = c # replace_from ''`'' [] cs"
        by (intro replace_from_skip) simp
      with False Cons.IH show ?thesis by simp
    qed
  qed
  then show ?thesis by (simp add: py_replace_def)
qed

lemma strip_label_table: "strip_label s = strip_first_label [''sql query'', ''query'', ''sql''] s"
  by (simp only: strip_label_def strip_first_label.simps)

lemma extract_sql_refines:
  "extract_sql_from_response response = extract_sql_amended response"
proof (cases "first_fenced_block response")
  case None
  then show ?thesis
    by (simp only: extract_sql_from_response_def extract_sql_amended_def Let_def
          remove_backticks strip_label_table first_block_eq option.case)
next
  case (Some block)
  then show ?thesis
    by (simp only: extract_sql_from_response_def extract_sql_amended_def Let_def
          remove_backticks strip_label_table first_block_eq option.case)
qed

lemma extract_unicode_whitespace_example:
  "extract_sql_from_response
     ([CHR 0xC2, CHR 0xA0] @ ''SELECT 1;'' @ [CHR 0xE2, CHR 0x80, CHR 0xA8]) = ''SELECT 1;''"
  by code_simp

lemma extract_long_s_example:
  "extract_sql_from_response
     ([CHR 0xC5, CHR 0xBF] @ ''QL:'' @ [CHR 0xC2, CHR 0xA0] @ ''SELECT 1;'') = ''SELECT 1;''"
  by code_simp

lemma extract_fenced_example:
  "extract_sql_from_response (''Here:'' @ nl @ ''```sql'' @ nl @ ''SELECT 1;'' @ nl @ ''```'')
     = ''SELECT 1;''"
  by code_simp

lemma extract_label_example: "extract_sql_from_response ''SQL: SELECT 1;'' = ''SELECT 1;''"
  by code_simp

lemma extract_empty_example: "extract_sql_from_response [] = []"
  by code_simp

text \<open>
  C3, as amended. For every response, \<open>extract_sql_from_response\<close> takes the interior
  of the first fenced block (optionally tagged \<open>sql\<close>), or the whole response when there
  is no such block, trims it, removes one leading label "SQL query", "Query" or "SQL"
  (in any letter case, with or without a colon after it) together with the whitespace
  that follows, and removes every backtick left. It maps the fenced example to
  \<open>SELECT 1;\<close>, \<open>SQL: SELECT 1;\<close> to \<open>SELECT 1;\<close> and the empty response to
  the empty string.
\<close>

theorem extract_sql_characterised:
  "extract_sql_from_response response = extract_sql_amended response
   \<and> extract_sql_from_response (''Here:'' @ nl @ ''```sql'' @ nl @ ''SELECT 1;'' @ nl @ ''```'')
       = ''SELECT 1;''
   \<and> extract_sql_from_response ''SQL: SELECT 1;'' = ''SELECT 1;''
   \<and> extract_sql_from_response [] = []"
  using extract_sql_refines extract_fenced_example extract_label_example extract_empty_example
  by blast

text \<open>
  The label is removed without its colon too: the response \<open>SQL SELECT 1;\<close> becomes
  \<open>SELECT 1;\<close>, where the wording of the specification, whose labels end with a colon,
  leaves it as it is.
\<close>

theorem extract_sql_counterexample:
  "extract_sql_from_response ''SQL SELECT 1;'' = ''SELECT 1;''
   \<and> extract_sql_spec ''SQL SELECT 1;'' = ''SQL SELECT 1;''"
  by code_simp

section \<open>Properties of the snapshot builder\<close>

lemma truncate_extend [simp]:
  "raw_column.truncate (raw_column.extend column (column_info.fields sem)) = column"
  by (simp add: raw_column.defs column_info.defs)



lemma analyze_tables_samples:
  "analyze_tables cat ts m info = (info', m') \<Longrightarrow>
     si_sample_data info' t =
       (if t \<in> set ts \<and> get_sample_data cat t 3 \<noteq> [] then Some (get_sample_data cat t 3)
        else si_sample_data info t)"
proof (induction ts arbitrary: m info)
  case Nil
  then show ?case by simp
next
  case (Cons table rest)
  then show ?case
    by (auto simp: Let_def split: prod.splits if_splits)
qed








section \<open>Properties of the prompt renderer\<close>

lemma sublist_concat_map:
  assumes "x \<in> set xs"
  shows "sublist (g x) (concat (map g xs))"
proof -
  from assms obtain ys zs where "xs = ys @ x # zs"
    by (auto dest: split_list)
  then have "concat (map g xs) = concat (map g ys) @ g x @ concat (map g zs)"
    by simp
  then show ?thesis by (metis sublist_appendI)
qed

lemma sublist_in_context: "sublist a b \<Longrightarrow> sublist a (p @ b @ q)"
  by (meson sublist_appendI sublist_order.order.trans)

lemma describe_relationship_fallback:
  assumes "semantic_of si (r_table rel) (r_column rel) \<noteq> []"
    and "semantic_of si (r_references_table rel) (r_references_column rel) = []"
  shows "describe_relationship si rel = described_connection si rel"
  using assms
  by (simp add: describe_relationship_def describe_connective_def described_connection_def Let_def)

lemma llm_relationship_fallback:
  assumes "semantic_of si (r_table rel) (r_column rel) \<noteq> []"
    and "semantic_of si (r_references_table rel) (r_references_column rel) = []"
  shows "llm_relationship si rel = briefed_connection si rel"
  using assms
  by (simp add: llm_relationship_def llm_connective_def briefed_connection_def Let_def)

lemma description_has_relationship:
  assumes "rel \<in> set (si_relationships si)"
  shows "sublist (describe_relationship si rel) (generate_schema_description f si)"
proof -
  have ne: "si_relationships si \<noteq> []" using assms by auto
  have "sublist (describe_relationship si rel)
          (concat (map (describe_relationship si) (si_relationships si)))"
    using assms by (rule sublist_concat_map)
  then have "sublist (describe_relationship si rel)
          ((''Database Schema:'' @ nl @ nl @ concat (map (describe_table f si) (si_tables si))
             @ ''Relationships:'' @ nl)
           @ concat (map (describe_relationship si) (si_relationships si)) @ [])"
    by (rule sublist_in_context)
  then show ?thesis
    using ne by (simp add: generate_schema_description_def)
qed

lemma llm_row_values_ok:
  "list_all (\<lambda>k. map_of row k \<noteq> None) keys \<Longrightarrow> \<exists>vs. llm_row_values f keys row = Inr vs"
  by (induction keys) auto

lemma llm_rows_ok:
  "list_all (\<lambda>row. list_all (\<lambda>k. map_of row k \<noteq> None) keys) rows \<Longrightarrow>
     \<exists>text. llm_rows f keys rows = Inr text"
proof (induction rows)
  case Nil
  show ?case by simp
next
  case (Cons row rows)
  then obtain vs out where "llm_row_values f keys row = Inr vs" "llm_rows f keys rows = Inr out"
    using llm_row_values_ok [of row keys f] by auto
  then show ?case by simp
qed

lemma llm_sample_block_ok:
  assumes "case sample of None \<Rightarrow> True | Some rows \<Rightarrow> rows_renderable rows"
  shows "\<exists>text. llm_sample_block f sample = Inr text"
proof (cases sample)
  case None
  then show ?thesis by (simp add: llm_sample_block_def)
next
  case (Some rows)
  show ?thesis
  proof (cases rows)
    case Nil
    with Some show ?thesis by (simp add: llm_sample_block_def)
  next
    case (Cons first others)
    with Some assms
    have "list_all (\<lambda>row. list_all (\<lambda>k. map_of row k \<noteq> None) (map fst first))
            (take 2 (first # others))"
      by (simp add: rows_renderable_def)
    then obtain out where "llm_rows f (map fst first) (take 2 (first # others)) = Inr out"
      using llm_rows_ok by blast
    with Some Cons show ?thesis by (simp add: llm_sample_block_def Let_def)
  qed
qed

lemma llm_tables_ok:
  assumes "list_all (\<lambda>entry. case si_sample_data si (fst entry) of
                          None \<Rightarrow> True | Some rows \<Rightarrow> rows_renderable rows) entries"
  shows "\<exists>text. llm_tables f si entries = Inr text"
  using assms
proof (induction entries)
  case Nil
  show ?case by simp
next
  case (Cons entry entries)
  obtain table_name info where e: "entry = (table_name, info)" by (cases entry)
  from Cons.prems e obtain sample_text where
    "llm_sample_block f (si_sample_data si table_name) = Inr sample_text"
    using llm_sample_block_ok [of "si_sample_data si table_name" f] by auto
  then obtain out where t: "llm_table f si entry = Inr out"
    by (simp add: llm_table_def e Let_def)
  from Cons obtain rest_text where "llm_tables f si entries = Inr rest_text" by auto
  with t show ?case by simp
qed

lemma brief_has_relationship:
  assumes "rel \<in> set (si_relationships si)" and "snapshot_renderable si"
  shows "\<exists>text. generate_schema_for_llm f si = Inr text \<and> sublist (llm_relationship si rel) text"
proof -
  have ne: "si_relationships si \<noteq> []" using assms(1) by auto
  obtain tables_text where t: "llm_tables f si (si_tables si) = Inr tables_text"
    using assms(2) llm_tables_ok unfolding snapshot_renderable_def by blast
  have "sublist (llm_relationship si rel)
          (concat (map (llm_relationship si) (si_relationships si)))"
    using assms(1) by (rule sublist_concat_map)
  then have "sublist (llm_relationship si rel)
          ((''# Database Schema'' @ nl @ nl @ llm_guidance @ tables_text @ ''## Relationships'' @ nl @ nl)
           @ concat (map (llm_relationship si) (si_relationships si))
           @ llm_date_reference (date_columns_of (si_tables si)))"
    by (rule sublist_in_context)
  then show ?thesis
    using ne t by (simp add: generate_schema_for_llm_def)
qed

lemma keys_fold_update:
  "fst ` set (fold (\<lambda>(column, v) d. AList.update column v d) kvs d0) = fst ` set d0 \<union> fst ` set kvs"
proof (induction kvs arbitrary: d0)
  case Nil
  show ?case by simp
next
  case (Cons kv kvs)
  obtain a b where kv: "kv = (a, b)" by (cases kv)
  have "fst ` set (fold (\<lambda>(column, v) d. AList.update column v d) (kv # kvs) d0)
          = fst ` set (AList.update a b d0) \<union> fst ` set kvs"
    using Cons.IH [of "AList.update a b d0"] by (simp add: kv)
  also have "\<dots> = ({a} \<union> fst ` set d0) \<union> fst ` set kvs"
    by (simp only: dom_update)
  finally show ?case by (auto simp: kv)
qed

lemma keys_row_dict:
  assumes "length columns \<le> length row"
  shows "fst ` set (row_dict columns row) = set columns"
proof -
  have "map fst (zip columns row) = columns"
    using assms by (simp add: map_fst_zip_take)
  then have "fst ` set (zip columns row) = set columns"
    by (metis set_map)
  then show ?thesis by (simp add: row_dict_def keys_fold_update)
qed

lemma get_sample_data_renderable: "rows_renderable (get_sample_data cat table limit)"
proof (cases "cat_sample cat table limit")
  case (Inl e)
  then show ?thesis by (simp add: get_sample_data_def rows_renderable_def)
next
  case (Inr r)
  obtain columns rows where r: "r = (columns, rows)" by (cases r)
  show ?thesis
  proof (cases "list_all (\<lambda>row. length columns \<le> length row) rows")
    case False
    with Inr r show ?thesis by (simp add: get_sample_data_def rows_renderable_def)
  next
    case True
    have g: "get_sample_data cat table limit = map (row_dict columns) rows"
      using Inr r True by (simp add: get_sample_data_def)
    have keys: "fst ` set d = set columns" if "d \<in> set (get_sample_data cat table limit)" for d
    proof -
      from that obtain row where row: "row \<in> set rows" "d = row_dict columns row"
        unfolding g by auto
      with True have "length columns \<le> length row" by (simp add: list_all_iff)
      then show ?thesis unfolding row(2) by (rule keys_row_dict)
    qed
    show ?thesis
    proof (cases "get_sample_data cat table limit")
      case Nil
      then show ?thesis by (simp add: rows_renderable_def)
    next
      case (Cons first others)
      have "map_of d k \<noteq> None"
        if "d \<in> set (take 2 (first # others))" and "k \<in> set (map fst first)" for d k
      proof -
        from that(1) have "d \<in> set (get_sample_data cat table limit)"
          unfolding Cons by (rule in_set_takeD)
        then have "fst ` set d = set columns" by (rule keys)
        moreover have "fst ` set first = set columns"
          by (rule keys) (simp add: Cons)
        ultimately have "k \<in> fst ` set d" using that(2) by simp
        then show ?thesis by (simp add: map_of_eq_None_iff)
      qed
      then show ?thesis
        unfolding Cons rows_renderable_def by (simp add: list_all_iff)
    qed
  qed
qed

lemma analyze_schema_renderable: "snapshot_renderable (fst (analyze_schema cat m))"
proof -
  define start :: "'a schema_info" where
    "start = \<lparr>si_tables = [], si_relationships = [], si_primary_keys = get_primary_keys cat,
              si_sample_data = Map.empty, si_column_semantics = Map.empty\<rparr>"
  obtain info m1 where at: "analyze_tables cat (cat_tables cat) m start = (info, m1)"
    by (cases "analyze_tables cat (cat_tables cat) m start") auto
  have si: "fst (analyze_schema cat m)
              = info\<lparr>si_relationships := map to_relationship (get_foreign_keys cat)\<rparr>"
    using at by (simp add: analyze_schema_def Let_def start_def)
  have "case si_sample_data info t of None \<Rightarrow> True | Some rows \<Rightarrow> rows_renderable rows" for t
    using analyze_tables_samples [OF at, of t] get_sample_data_renderable [of cat t 3]
    by (simp add: start_def split: if_splits)
  then show ?thesis
    by (simp add: snapshot_renderable_def si list_all_iff)
qed

text \<open>
  C10. For a relationship of the snapshot whose owning column has a non-empty label while
  the referenced column has none, the human description contains the relationship line
  followed by "(Connects <label> to <referenced table>)", and the model brief, which is
  produced whenever the sample rows are renderable (as they are in every snapshot that
  \<open>analyze_schema\<close> builds), contains the relationship with the same sentence: what
  follows "to" is the name of the referenced table.
\<close>

theorem connective_names_referenced_table:
  assumes "rel \<in> set (si_relationships si)"
    and "semantic_of si (r_table rel) (r_column rel) \<noteq> []"
    and "semantic_of si (r_references_table rel) (r_references_column rel) = []"
  shows "sublist (described_connection si rel) (generate_schema_description f si)
         \<and> (snapshot_renderable si \<longrightarrow>
              (\<exists>text. generate_schema_for_llm f si = Inr text
                       \<and> sublist (briefed_connection si rel) text))"
  using description_has_relationship [OF assms(1), of f]
    brief_has_relationship [OF assms(1), of f]
    describe_relationship_fallback [OF assms(2,3)] llm_relationship_fallback [OF assms(2,3)]
  by auto



lemma orders_relationships:
  "si_relationships (fst (analyze_schema orders_catalog empty_memo)) = [orders_customer_fk]"
  by code_simp

lemma orders_customer_id_label:
  "semantic_of (fst (analyze_schema orders_catalog empty_memo)) ''orders'' ''customer_id''
     = ''Identifier or foreign key''"
  by code_simp

lemma customers_id_label:
  "semantic_of (fst (analyze_schema orders_catalog empty_memo)) ''customers'' ''id'' = []"
  by code_simp

lemma orders_described_connection:
  "described_connection (fst (analyze_schema orders_catalog empty_memo)) orders_customer_fk
     = ''  - orders.customer_id references customers.id'' @ nl
       @ ''    (Connects Identifier or foreign key to customers)'' @ nl"
  by (simp add: described_connection_def orders_customer_fk_def orders_customer_id_label)

lemma orders_briefed_connection:
  "briefed_connection (fst (analyze_schema orders_catalog empty_memo)) orders_customer_fk
     = ''- orders.customer_id '' @ arrow
       @ '' customers.id (Connects Identifier or foreign key to customers)'' @ nl"
  by (simp add: briefed_connection_def orders_customer_fk_def orders_customer_id_label)

theorem connective_names_referenced_table_witness:
  "orders_customer_fk \<in> set (si_relationships (fst (analyze_schema orders_catalog empty_memo)))
   \<and> semantic_of (fst (analyze_schema orders_catalog empty_memo))
        (r_table orders_customer_fk) (r_column orders_customer_fk) \<noteq> []
   \<and> semantic_of (fst (analyze_schema orders_catalog empty_memo))
        (r_references_table orders_customer_fk) (r_references_column orders_customer_fk) = []
   \<and> snapshot_renderable (fst (analyze_schema orders_catalog empty_memo))
   \<and> sublist (''  - orders.customer_id references customers.id'' @ nl
              @ ''    (Connects Identifier or foreign key to customers)'' @ nl)
        (generate_schema_description plain_fmt (fst (analyze_schema orders_catalog empty_memo)))
   \<and> (case generate_schema_for_llm plain_fmt (fst (analyze_schema orders_catalog empty_memo)) of
        Inl e \<Rightarrow> False
      | Inr brief \<Rightarrow>
          sublist (''- orders.customer_id '' @ arrow
                   @ '' customers.id (Connects Identifier or foreign key to customers)'' @ nl)
            brief)"
proof -
  let ?S = "fst (analyze_schema orders_catalog empty_memo)"
  have h1: "orders_customer_fk \<in> set (si_relationships ?S)"
    by (simp add: orders_relationships)
  have h2: "semantic_of ?S (r_table orders_customer_fk) (r_column orders_customer_fk) \<noteq> []"
    by (simp add: orders_customer_fk_def orders_customer_id_label)
  have h3: "semantic_of ?S (r_references_table orders_customer_fk)
              (r_references_column orders_customer_fk) = []"
    by (simp add: orders_customer_fk_def customers_id_label)
  have h4: "snapshot_renderable ?S"
    by (rule analyze_schema_renderable)
  note w = connective_names_referenced_table [OF h1 h2 h3, of plain_fmt]
  have d: "sublist (''  - orders.customer_id references customers.id'' @ nl
              @ ''    (Connects Identifier or foreign key to customers)'' @ nl)
        (generate_schema_description plain_fmt ?S)"
    using w [THEN conjunct1] by (simp only: orders_described_connection)
  from w h4 obtain brief where
    b: "generate_schema_for_llm plain_fmt ?S = Inr brief"
       "sublist (briefed_connection ?S orders_customer_fk) brief"
    by blast
  have l: "case generate_schema_for_llm plain_fmt ?S of
        Inl e \<Rightarrow> False
      | Inr brief \<Rightarrow>
          sublist (''- orders.customer_id '' @ arrow
                   @ '' customers.id (Connects Identifier or foreign key to customers)'' @ nl)
            brief"
    using b by (simp only: orders_briefed_connection sum.case)
  from h1 h2 h3 h4 d l show ?thesis by blast
qed

section \<open>Properties of query execution and the question flow\<close>

lemma log_events [simp]: "events (log evs s) = events s @ evs"
  by (simp add: log_def)

lemma log_connection [simp]: "connection (log evs s) = connection s"
  by (simp add: log_def)

lemma log_history [simp]: "query_history (log evs s) = query_history s"
  by (simp add: log_def)

lemma append_history_events [simp]: "events (append_history entry s) = events s"
  by (simp add: append_history_def)

lemma append_history_history [simp]:
  "query_history (append_history entry s) = query_history s @ [entry]"
  by (simp add: append_history_def)

lemma execute_query_live:
  assumes "connection s = Some Live"
  shows "execute_query env s query =
           (case env_run env query of
              Inl e \<Rightarrow> Inl (''Error executing query: '' @ e)
            | Inr r \<Rightarrow> Inr r,
            log [CursorExecute query] s)"
  using assms by (simp add: execute_query_def split: sum.splits)

lemma execute_query_events:
  "prefix (events s) (events (snd (execute_query env s query)))"
  by (auto simp: execute_query_def connect_def Let_def split: option.splits conn.splits sum.splits)

lemma execute_query_history:
  "query_history (snd (execute_query env s query)) = query_history s"
  by (auto simp: execute_query_def connect_def Let_def log_def
           split: option.splits conn.splits sum.splits)

lemma main_repair_events:
  "prefix (events s) (events (main_repair env s question sql_query e fix))"
proof (cases "env_explain env question sql_query [] (Some e)")
  case (Inl x)
  then show ?thesis by (simp add: main_repair_def Let_def)
next
  case (Inr error_explanation)
  show ?thesis
  proof (cases "fix")
    case None
    with Inr show ?thesis by (simp add: main_repair_def Let_def)
  next
    case (Some fixed_query)
    let ?s2 = "log [CallExecuteQuery fixed_query]
                 (log [ShowErrorAnalysis error_explanation]
                    (log [ShowError (''Error executing the query: '' @ e)] s))"
    obtain r s3 where ex: "execute_query env ?s2 fixed_query = (r, s3)"
      by (cases "execute_query env ?s2 fixed_query")
    have "prefix (events ?s2) (events s3)"
      using execute_query_events [of ?s2 env fixed_query] ex by simp
    then have "prefix (events s) (events s3)"
      by (auto simp: prefix_def)
    with Inr Some ex show ?thesis
      by (auto simp: main_repair_def Let_def prefix_def split: sum.splits)
  qed
qed

text \<open>
  C4. In \<open>streamlit.py\<close>, when the extraction from the model's answer is the empty
  string, the flow goes on: it calls \<open>execute_query\<close> with the empty string, and on a
  live connection the empty string is sent to the engine. (The flow of
  \<open>ui/streamlit.py\<close> stops before any execution: lemma \<open>ui_halts_on_empty_sql\<close>.)
\<close>

theorem main_executes_empty_sql:
  assumes "env_generate env (schema_for_llm s) question = Inr raw_response"
    and "extract_sql_from_response raw_response = []"
  shows "CallExecuteQuery [] \<in> set (events (main_submit env s question fix))
         \<and> (connection s = Some Live \<longrightarrow>
              CursorExecute [] \<in> set (events (main_submit env s question fix)))"
proof -
  let ?s1 = "log [ShowSql [], CallExecuteQuery []] s"
  obtain r s2 where ex: "execute_query env ?s1 [] = (r, s2)"
    by (cases "execute_query env ?s1 []")
  have p1: "prefix (events ?s1) (events s2)"
    using execute_query_events [of ?s1 env "[]"] ex by simp
  have p2: "prefix (events s2) (events (main_submit env s question fix))"
    using assms ex main_repair_events [of s2 env question "[]" _ "fix"]
    by (auto simp: main_submit_def Let_def split: sum.splits)
  from p1 p2 have p: "prefix (events ?s1) (events (main_submit env s question fix))"
    by (rule prefix_order.order_trans)
  have call: "CallExecuteQuery [] \<in> set (events (main_submit env s question fix))"
    using p by (auto simp: prefix_def)
  have submit: "CursorExecute [] \<in> set (events (main_submit env s question fix))"
    if "connection s = Some Live"
  proof -
    have "s2 = log [CursorExecute []] ?s1"
      using ex that by (simp add: execute_query_live)
    then have "CursorExecute [] \<in> set (events s2)" by simp
    with p2 show ?thesis by (auto simp: prefix_def)
  qed
  from call submit show ?thesis by blast
qed

theorem main_executes_empty_sql_witness:
  "env_generate demo_env (schema_for_llm demo_session) ''two?'' = Inr ''```sql```''
   \<and> extract_sql_from_response ''```sql```'' = []
   \<and> connection demo_session = Some Live
   \<and> CallExecuteQuery [] \<in> set (events (main_submit demo_env demo_session ''two?'' None))
   \<and> CursorExecute [] \<in> set (events (main_submit demo_env demo_session ''two?'' None))"
proof -
  have h1: "env_generate demo_env (schema_for_llm demo_session) ''two?'' = Inr ''```sql```''"
    by (simp add: demo_env_def)
  have h2: "extract_sql_from_response ''```sql```'' = []"
    by code_simp
  have h3: "connection demo_session = Some Live"
    by (simp add: demo_session_def)
  from main_executes_empty_sql [OF h1 h2, of None] h1 h2 h3
  show ?thesis by blast
qed

lemma ui_halts_on_empty_sql:
  assumes "env_generate env (schema_for_llm s) question = Inr raw_response"
    and "extract_sql_from_response raw_response = []"
  shows "ui_submit an env s question fix =
           log [ShowError ''Failed to generate a valid SQL query. The LLM did not provide a query in the correct format (between triple backticks).'',
                Stop] s"
  using assms by (simp add: ui_submit_def)

text \<open>
  C8. \<open>execute_query\<close> of \<open>streamlit.py\<close> with a connection that is dead: when the
  server is gone the query is sent on the dead connection and the error is returned, and
  when the connection is closed the error of \<open>cursor()\<close> is returned. With any
  connection object at hand, dead or live, no connection attempt is made, whether or not
  it would succeed. (The flow of
  \<open>ui/streamlit.py\<close> checks the connection and reconnects once before it executes:
  lemma \<open>ui_reconnects_once\<close>.)
\<close>

theorem execute_query_dead_connection:
  "(connection s = Some Broken \<longrightarrow>
      execute_query env s query
        = (Inl (''Error executing query: '' @ env_lost_error env),
           (log [CursorExecute query] s)\<lparr>connection := Some Closed\<rparr>))
   \<and> (connection s = Some Closed \<longrightarrow>
      execute_query env s query = (Inl ''connection already closed'', s))
   \<and> (connection s \<noteq> None \<longrightarrow>
      Connect \<notin> set (drop (length (events s)) (events (snd (execute_query env s query)))))"
proof (cases "connection s")
  case None
  then show ?thesis by simp
next
  case (Some c)
  show ?thesis
  proof (cases c)
    case Live
    with Some have "events (snd (execute_query env s query)) = events s @ [CursorExecute query]"
      by (simp add: execute_query_live)
    with Some Live show ?thesis by simp
  next
    case Closed
    with Some show ?thesis by (simp add: execute_query_def)
  next
    case Broken
    with Some show ?thesis by (simp add: execute_query_def)
  qed
qed

theorem execute_query_dead_connection_witness:
  "connection (demo_session\<lparr>connection := Some Broken\<rparr>) = Some Broken
   \<and> env_connect_error demo_env = None
   \<and> execute_query demo_env (demo_session\<lparr>connection := Some Broken\<rparr>) ''SELECT 1''
       = (Inl (''Error executing query: '' @ env_lost_error demo_env),
          (log [CursorExecute ''SELECT 1''] (demo_session\<lparr>connection := Some Broken\<rparr>))
            \<lparr>connection := Some Closed\<rparr>)
   \<and> Connect \<notin> set (events (snd (execute_query demo_env
                                        (demo_session\<lparr>connection := Some Broken\<rparr>) ''SELECT 1'')))"
proof -
  have h1: "connection (demo_session\<lparr>connection := Some Broken\<rparr>) = Some Broken"
    by simp
  have h2: "env_connect_error demo_env = None"
    by (simp add: demo_env_def)
  from execute_query_dead_connection [of "demo_session\<lparr>connection := Some Broken\<rparr>" demo_env "''SELECT 1''"] h1
  have e: "execute_query demo_env (demo_session\<lparr>connection := Some Broken\<rparr>) ''SELECT 1''
       = (Inl (''Error executing query: '' @ env_lost_error demo_env),
          (log [CursorExecute ''SELECT 1''] (demo_session\<lparr>connection := Some Broken\<rparr>))
            \<lparr>connection := Some Closed\<rparr>)"
    by blast
  have "Connect \<notin> set (events (snd (execute_query demo_env
                                        (demo_session\<lparr>connection := Some Broken\<rparr>) ''SELECT 1'')))"
    unfolding e by (simp add: demo_session_def)
  with h1 h2 e show ?thesis by blast
qed

lemma ui_reconnects_once:
  assumes "ui_check_connection_health an s = (False, s1)"
  shows "ui_guarded_execute an s query =
           (case ui_connect an
                   (log [ShowWarning ''Database connection issue detected. Attempting to reconnect...''] s1) of
              ((True, message), s2) \<Rightarrow>
                (case ui_execute_query an (log [CallExecuteQuery query] s2) query of
                   (r, s3) \<Rightarrow> (Some r, s3))
            | ((False, message), s2) \<Rightarrow>
                (None, log [ShowError (''Could not reconnect to database: '' @ message),
                            ShowInfo ''Please wait a moment and try again.'', Stop] s2))"
  using assms by (simp add: ui_guarded_execute_def split: prod.splits bool.splits)




end
